theory Spec2Isabelle
  imports Complex_Main
begin

section \<open>Conventions\<close>

text \<open>
  The scene is a React/three.js program. Callbacks, mutation of closure variables and
  thrown exceptions are made explicit: a function returns the calls it made, the new
  state and the exception it raised, if any.

  Its numbers are JavaScript numbers, IEEE 754 doubles. The arithmetic of the gesture
  controller is modelled as the language does it: every subtraction, division and
  multiplication gives the double nearest to the exact result (\<open>double\<close> below).
  Positions, angles and times of the animation are modelled as \<^typ>\<open>real\<close> in exact
  arithmetic; rounding can stall a blend a few units in the last place away from its
  target, so what is stated about positions is limited to what does not depend on the
  rounding. NaN and the infinities are not modelled.
\<close>

datatype SceneState = CHAOS | FORMED

datatype error = TypeError | Rejected

section \<open>Double arithmetic\<close>

text \<open>
  \<open>double x\<close> is the double nearest to \<open>x\<close>, ties going to the even significand: with
  \<open>2 ^ e \<le> \<bar>x\<bar> < 2 ^ (e + 1)\<close> (and \<open>e\<close> not below -1022, where the subnormal numbers
  begin) it is the nearest multiple of \<open>2 ^ (e - 52)\<close>. \<open>binade\<close> finds \<open>e\<close> by doubling
  or halving, at most \<open>fuel\<close> times, which is enough for every magnitude that is not
  rounded to 0 anyway. Results beyond the largest double, which JavaScript gives as
  Infinity, are outside the model.
\<close>

definition pow2 :: "int \<Rightarrow> real" where
  "pow2 e = (if 0 \<le> e then 2 ^ nat e else 1 / 2 ^ nat (- e))"

fun binade :: "nat \<Rightarrow> real \<Rightarrow> int \<Rightarrow> int" where
  "binade 0 a e = e"
| "binade (Suc fuel) a e =
     (if 2 \<le> a then binade fuel (a / 2) (e + 1)
      else if a < 1 then binade fuel (a * 2) (e - 1)
      else e)"

definition roundHalfEven :: "real \<Rightarrow> int" where
  "roundHalfEven y =
     (let m = \<lfloor>y\<rfloor>; r = y - of_int m
      in if r < 1 / 2 then m else if 1 / 2 < r then m + 1 else if even m then m else m + 1)"

definition double :: "real \<Rightarrow> real" where
  "double x =
     (if x = 0 then 0
      else (let e = max (binade 2200 \<bar>x\<bar> 0) (- 1022);
                ulp = pow2 (e - 52)
            in sgn x * of_int (roundHalfEven (\<bar>x\<bar> / ulp)) * ulp))"

section \<open>Gesture controller: the recognition callback\<close>

text \<open>
  The recognizer's result, as \<open>predictWebcam\<close> reads it: \<open>results.gestures\<close> is a list
  (one entry per hand) of lists of categories, \<open>results.landmarks\<close> a list (one entry per
  hand) of lists of landmarks.
\<close>

record Category =
  categoryName :: string
  score :: real

record NormalizedLandmark =
  lm_x :: real
  lm_y :: real
  lm_z :: real

record GestureRecognizerResult =
  gestures :: "Category list list"
  landmarks :: "NormalizedLandmark list list"

text \<open>The two closure variables of the effect, \<open>let lastX\<close> and \<open>let lastTimestamp\<close>.\<close>

record tracking =
  lastX :: "real option"
  lastTimestamp :: "real option"

text \<open>The props \<open>onGesture\<close>, \<open>onMove\<close> and \<open>onStatus\<close>, as the calls made on them.\<close>

datatype callback = OnGesture SceneState | OnMove real | OnStatus string

record outcome =
  calls :: "callback list"
  tracked :: tracking
  thrown :: "error option"

text \<open>The literal \<open>0.4\<close> of the three score tests is the double nearest to it.\<close>

definition isClosedFist :: "string \<Rightarrow> real \<Rightarrow> bool" where
  "isClosedFist name sc = (name = ''Closed_Fist'' \<and> sc > double 0.4)"

definition isOpenPalm :: "string \<Rightarrow> real \<Rightarrow> bool" where
  "isOpenPalm name sc = (name = ''Open_Palm'' \<and> sc > double 0.4)"

text \<open>
  The value passed to \<open>onMove\<close> in the branch \<open>results.landmarks.length > 0\<close>:
  \<open>canControlRotation\<close> needs a qualifying gesture and both previous values. The
  velocity is computed in doubles: the subtractions, the division and the multiplication
  round, the negation, \<open>Math.max\<close> and \<open>Math.abs\<close> are exact, and the literal
  \<open>0.0002\<close> is the double nearest to it.
\<close>

definition moveValue :: "string \<Rightarrow> real \<Rightarrow> tracking \<Rightarrow> real \<Rightarrow> real \<Rightarrow> real" where
  "moveValue name sc st now currentX =
     (case (lastX st, lastTimestamp st) of
        (Some prevX, Some prevTimestamp) \<Rightarrow>
          if isClosedFist name sc \<or> isOpenPalm name sc then
            (let deltaX = double (currentX - prevX);
                 deltaT = max (double (now - prevTimestamp)) 1;
                 velocity = double (double (- deltaX / deltaT) * 280)
             in if \<bar>velocity\<bar> > double 0.0002 then velocity else 0)
          else 0
      | _ \<Rightarrow> 0)"

text \<open>
  The body of \<open>predictWebcam\<close> from \<open>if (results.gestures.length > 0)\<close> on, for one
  recognition result. \<open>now\<close> is the value \<open>performance.now()\<close> returns in this call.
  Reading \<open>results.gestures[0][0].categoryName\<close> or \<open>results.landmarks[0][0].x\<close> of an
  empty inner list throws a TypeError; the calls made before it stay made.
\<close>

definition predictWebcam ::
  "bool \<Rightarrow> real \<Rightarrow> GestureRecognizerResult \<Rightarrow> tracking \<Rightarrow> outcome" where
  "predictWebcam debugMode now results st =
     (case gestures results of
        [] \<Rightarrow>
          \<lparr>calls = OnMove 0 # (if debugMode then [OnStatus ''AI READY: NO HAND''] else []),
           tracked = \<lparr>lastX = None, lastTimestamp = None\<rparr>,
           thrown = None\<rparr>
      | hand # _ \<Rightarrow>
          (case hand of
             [] \<Rightarrow> \<lparr>calls = [], tracked = st, thrown = Some TypeError\<rparr>
           | c # _ \<Rightarrow>
               (let name = categoryName c;
                    sc = score c;
                    mode_calls =
                      (if sc > double 0.4 then
                         (if name = ''Open_Palm'' then [OnGesture CHAOS] else []) @
                         (if isClosedFist name sc then [OnGesture FORMED] else []) @
                         (if debugMode then [OnStatus (''DETECTED: '' @ name)] else [])
                       else [])
                in (case landmarks results of
                      [] \<Rightarrow> \<lparr>calls = mode_calls, tracked = st, thrown = None\<rparr>
                    | points # _ \<Rightarrow>
                        (case points of
                           [] \<Rightarrow> \<lparr>calls = mode_calls, tracked = st, thrown = Some TypeError\<rparr>
                         | p # _ \<Rightarrow>
                             (let currentX = lm_x p
                              in \<lparr>calls = mode_calls @ [OnMove (moveValue name sc st now currentX)],
                                  tracked = \<lparr>lastX = Some currentX, lastTimestamp = Some now\<rparr>,
                                  thrown = None\<rparr>))))))"

text \<open>The mode commands and the rotation velocities among the calls of one frame.\<close>

fun modeCommands :: "callback list \<Rightarrow> SceneState list" where
  "modeCommands [] = []"
| "modeCommands (OnGesture m # cs) = m # modeCommands cs"
| "modeCommands (_ # cs) = modeCommands cs"

fun velocities :: "callback list \<Rightarrow> real list" where
  "velocities [] = []"
| "velocities (OnMove v # cs) = v # velocities cs"
| "velocities (_ # cs) = velocities cs"

section \<open>The application state the callbacks write\<close>

text \<open>
  \<open>GrandTreeApp\<close> keeps \<open>sceneState\<close>, \<open>rotationSpeed\<close> and \<open>aiStatus\<close> in React state.
  \<open>onGesture\<close> is \<open>setSceneState\<close>, \<open>onStatus\<close> is \<open>setAiStatus\<close> and \<open>onMove\<close> is
  \<open>handleMove\<close>, a closure over the \<open>baseSpin\<close> of the render that created it.
\<close>

record app =
  sceneState :: SceneState
  rotationSpeed :: real
  aiStatus :: string

definition baseSpin :: "SceneState \<Rightarrow> real" where
  "baseSpin s = (if s = CHAOS then 0.03 else 0.01)"

definition initialApp :: app where
  "initialApp = \<lparr>sceneState = CHAOS, rotationSpeed = baseSpin CHAOS, aiStatus = ''INITIALIZING...''\<rparr>"

definition handleMove :: "real \<Rightarrow> real \<Rightarrow> app \<Rightarrow> app" where
  "handleMove capturedBaseSpin speed a = a\<lparr>rotationSpeed := capturedBaseSpin + speed\<rparr>"

fun invoke :: "real \<Rightarrow> callback \<Rightarrow> app \<Rightarrow> app" where
  "invoke b (OnGesture m) a = a\<lparr>sceneState := m\<rparr>"
| "invoke b (OnMove v) a = handleMove b v a"
| "invoke b (OnStatus s) a = a\<lparr>aiStatus := s\<rparr>"

text \<open>
  The effect \<open>useEffect(() => setRotationSpeed(baseSpin), [baseSpin])\<close>: it runs after a
  render in which \<open>baseSpin\<close> differs from the previous render's.
\<close>

definition alignSpin :: "real \<Rightarrow> app \<Rightarrow> app" where
  "alignSpin previousBaseSpin a =
     (if baseSpin (sceneState a) = previousBaseSpin then a
      else a\<lparr>rotationSpeed := baseSpin (sceneState a)\<rparr>)"

text \<open>
  One batch of callbacks (the calls of one \<open>predictWebcam\<close> run, or one click), made on
  the closures of the current render, then the render and its effect.
\<close>

definition dispatch :: "callback list \<Rightarrow> app \<Rightarrow> app" where
  "dispatch cs a =
     (let b = baseSpin (sceneState a)
      in alignSpin b (fold (invoke b) cs a))"

text \<open>The button: \<open>setSceneState((s) => (s === "CHAOS" ? "FORMED" : "CHAOS"))\<close>.\<close>

definition toggle :: "app \<Rightarrow> app" where
  "toggle a = dispatch [OnGesture (if sceneState a = CHAOS then FORMED else CHAOS)] a"


section \<open>Vectors\<close>

text \<open>
  \<open>THREE.Vector3\<close> and \<open>THREE.Euler\<close> are library classes. \<open>lerp\<close> is
  \<open>Vector3.lerp(v, alpha)\<close>, which adds \<open>(v - this) * alpha\<close> to each component of
  \<open>this\<close>; \<open>distanceTo\<close> is \<open>Vector3.distanceTo\<close>. Both are in exact arithmetic
  here (see the conventions): in doubles each of their operations rounds, and a
  component close to its target may stay where it was.
\<close>

record Vector3 =
  vx :: real
  vy :: real
  vz :: real

record Euler =
  ex :: real
  ey :: real
  ez :: real

definition lerp :: "Vector3 \<Rightarrow> Vector3 \<Rightarrow> real \<Rightarrow> Vector3" where
  "lerp this v alpha =
     \<lparr>vx = vx this + (vx v - vx this) * alpha,
      vy = vy this + (vy v - vy this) * alpha,
      vz = vz this + (vz v - vz this) * alpha\<rparr>"



section \<open>The tree shape\<close>

definition tree_height :: real where
  "tree_height = 32"

definition tree_radius :: real where
  "tree_radius = 14"

text \<open>
  \<open>getTreePosition\<close>, with the three values of \<open>Math.random()\<close> it draws, in order,
  as arguments; the array \<open>[x, y, z]\<close> it returns is given as a vector. \<open>normalizedY\<close>
  and \<open>currentRadius\<close> are its local constants of those names, as functions of the
  height \<open>y\<close> it drew.
\<close>

definition normalizedY :: "real \<Rightarrow> real" where
  "normalizedY y = (y + tree_height / 2) / tree_height"

definition currentRadius :: "real \<Rightarrow> real" where
  "currentRadius y = tree_radius * (1 - normalizedY y)"

definition getTreePosition :: "real \<Rightarrow> real \<Rightarrow> real \<Rightarrow> Vector3" where
  "getTreePosition random1 random2 random3 =
     (let h = tree_height;
          y = random1 * h - h / 2;
          theta = random2 * pi * 2;
          r = random3 * currentRadius y
      in \<lparr>vx = r * cos theta, vy = y, vz = r * sin theta\<rparr>)"

section \<open>Object pools\<close>

text \<open>
  Every pool keeps, per object, \<open>chaosPos\<close>, \<open>targetPos\<close> and \<open>currentPos\<close>. The scene
  graph holds one child per object, with the position and rotation the renderer reads;
  a light's mesh has a material too.
\<close>

record pooled =
  chaosPos :: Vector3
  targetPos :: Vector3
  currentPos :: Vector3

record photoData = pooled +
  photo_scale :: real
  weight :: real
  textureIndex :: nat
  borderColor :: string
  photo_chaosRotation :: Euler
  photo_rotationSpeed :: Vector3
  wobbleOffset :: real
  wobbleSpeed :: real

record elementData = pooled +
  element_type :: nat
  element_color :: string
  element_scale :: real
  element_chaosRotation :: Euler
  element_rotationSpeed :: Vector3

record lightData = pooled +
  light_color :: string
  speed :: real
  timeOffset :: real
  normalizedHeight :: real

record Object3D =
  position :: Vector3
  rotation :: Euler

record Material =
  emissiveIntensity :: real

record Mesh = Object3D +
  material :: "Material option"

text \<open>\<open>groupRef.current\<close> is null until the group is mounted; then it has the children.\<close>

record ('c, 'd) pool =
  groupRef :: "'c list option"
  data :: "'d list"

text \<open>
  \<open>children.forEach((child, i) => ...)\<close> with \<open>data[i]\<close> read in the callback: the
  i-th child goes with the i-th object, and a child beyond the end of \<open>data\<close> reads a
  field of \<open>undefined\<close>, which throws. Objects beyond the last child are not visited.
\<close>

fun forEach :: "('c \<Rightarrow> 'd \<Rightarrow> 'c \<times> 'd) \<Rightarrow> 'c list \<Rightarrow> 'd list \<Rightarrow> error + ('c list \<times> 'd list)" where
  "forEach f [] ds = Inr ([], ds)"
| "forEach f (c # cs) [] = Inl TypeError"
| "forEach f (c # cs) (d # ds) =
     (case forEach f cs ds of
        Inl e \<Rightarrow> Inl e
      | Inr (cs', ds') \<Rightarrow> Inr (fst (f c d) # cs', snd (f c d) # ds'))"

definition useFrame :: "('c \<Rightarrow> 'd \<Rightarrow> 'c \<times> 'd) \<Rightarrow> ('c, 'd) pool \<Rightarrow> error + ('c, 'd) pool" where
  "useFrame f p =
     (case groupRef p of
        None \<Rightarrow> Inr p
      | Some children \<Rightarrow>
          (case forEach f children (data p) of
             Inl e \<Rightarrow> Inl e
           | Inr (cs', ds') \<Rightarrow> Inr \<lparr>groupRef = Some cs', data = ds'\<rparr>))"

text \<open>A frame's inputs: the scene state prop, \<open>clock.elapsedTime\<close> and \<open>delta\<close>.\<close>

record frame =
  state :: SceneState
  elapsedTime :: real
  delta :: real

fun frames :: "(frame \<Rightarrow> 'p \<Rightarrow> error + 'p) \<Rightarrow> frame list \<Rightarrow> 'p \<Rightarrow> error + 'p" where
  "frames step [] p = Inr p"
| "frames step (fr # frs) p =
     (case step fr p of Inl e \<Rightarrow> Inl e | Inr p' \<Rightarrow> frames step frs p')"

text \<open>
  The constant \<open>target\<close> of the three \<open>useFrame\<close> callbacks,
  \<open>isFormed ? objData.targetPos : objData.chaosPos\<close>, and the distance of an object's
  current position to it.
\<close>

definition target :: "bool \<Rightarrow> 'a pooled_scheme \<Rightarrow> Vector3" where
  "target isFormed objData = (if isFormed then targetPos objData else chaosPos objData)"


subsection \<open>Photo ornaments\<close>

text \<open>
  The callback of \<open>PhotoOrnaments\<close>' \<open>useFrame\<close> for one child. \<open>Object3D.lookAt\<close> is
  library code that rewrites the orientation only; the orientation it computes from the
  object's position and the point looked at is the parameter \<open>lookAt\<close>.
\<close>

definition photoRate :: "bool \<Rightarrow> photoData \<Rightarrow> real" where
  "photoRate isFormed objData = (if isFormed then 0.8 * weight objData else 0.5)"

definition photoCallback ::
  "(Vector3 \<Rightarrow> Vector3 \<Rightarrow> Euler) \<Rightarrow> frame \<Rightarrow> Object3D \<Rightarrow> photoData \<Rightarrow> Object3D \<times> photoData" where
  "photoCallback lookAt fr child objData =
     (let isFormed = (state fr = FORMED);
          time = elapsedTime fr;
          cur = lerp (currentPos objData) (target isFormed objData)
                  (delta fr * photoRate isFormed objData);
          objData' = objData\<lparr>currentPos := cur\<rparr>;
          group1 = child\<lparr>position := cur\<rparr>
      in if isFormed then
           (let targetLookPos = \<lparr>vx = vx (position group1) * 2,
                                   vy = vy (position group1) + 0.5,
                                   vz = vz (position group1) * 2\<rparr>;
                facing = lookAt (position group1) targetLookPos;
                wobbleX = sin (time * wobbleSpeed objData + wobbleOffset objData) * 0.05;
                wobbleZ = cos (time * wobbleSpeed objData * 0.8 + wobbleOffset objData) * 0.05
            in (group1\<lparr>rotation := facing\<lparr>ex := ex facing + wobbleX, ez := ez facing + wobbleZ\<rparr>\<rparr>,
                objData'))
         else
           (group1\<lparr>rotation :=
              \<lparr>ex = ex (rotation group1) + delta fr * vx (photo_rotationSpeed objData),
               ey = ey (rotation group1) + delta fr * vy (photo_rotationSpeed objData),
               ez = ez (rotation group1) + delta fr * vz (photo_rotationSpeed objData)\<rparr>\<rparr>,
            objData'))"

definition PhotoOrnaments_useFrame ::
  "(Vector3 \<Rightarrow> Vector3 \<Rightarrow> Euler) \<Rightarrow> frame \<Rightarrow> (Object3D, photoData) pool
     \<Rightarrow> error + (Object3D, photoData) pool" where
  "PhotoOrnaments_useFrame lookAt fr p = useFrame (photoCallback lookAt fr) p"

subsection \<open>Christmas elements\<close>

definition elementCallback :: "frame \<Rightarrow> Object3D \<Rightarrow> elementData \<Rightarrow> Object3D \<times> elementData" where
  "elementCallback fr mesh objData =
     (let isFormed = (state fr = FORMED);
          cur = lerp (currentPos objData) (target isFormed objData) (delta fr * 1.5)
      in (mesh\<lparr>position := cur,
               rotation :=
                 \<lparr>ex = ex (rotation mesh) + delta fr * vx (element_rotationSpeed objData),
                  ey = ey (rotation mesh) + delta fr * vy (element_rotationSpeed objData),
                  ez = ez (rotation mesh) + delta fr * vz (element_rotationSpeed objData)\<rparr>\<rparr>,
          objData\<lparr>currentPos := cur\<rparr>))"

definition ChristmasElements_useFrame ::
  "frame \<Rightarrow> (Object3D, elementData) pool \<Rightarrow> error + (Object3D, elementData) pool" where
  "ChristmasElements_useFrame fr p = useFrame (elementCallback fr) p"

subsection \<open>Fairy lights\<close>

text \<open>The constants \<open>intensity\<close> and \<open>heightBoost\<close> of the lights' callback.\<close>

definition intensity :: "real \<Rightarrow> lightData \<Rightarrow> real" where
  "intensity time objData = (sin (time * speed objData + timeOffset objData) + 1) / 2"

definition heightBoost :: "lightData \<Rightarrow> real" where
  "heightBoost objData = 0.55 + (1 - normalizedHeight objData) * 0.9"

definition lightCallback :: "frame \<Rightarrow> Mesh \<Rightarrow> lightData \<Rightarrow> Mesh \<times> lightData" where
  "lightCallback fr child objData =
     (let isFormed = (state fr = FORMED);
          time = elapsedTime fr;
          cur = lerp (currentPos objData) (target isFormed objData) (delta fr * 2.0);
          mesh = child\<lparr>position := cur\<rparr>
      in ((case material mesh of
             None \<Rightarrow> mesh
           | Some m \<Rightarrow>
               mesh\<lparr>material := Some (m\<lparr>emissiveIntensity :=
                 (if isFormed then (3 + intensity time objData * 4) * heightBoost objData
                  else 0)\<rparr>)\<rparr>),
          objData\<lparr>currentPos := cur\<rparr>))"

definition FairyLights_useFrame ::
  "frame \<Rightarrow> (Mesh, lightData) pool \<Rightarrow> error + (Mesh, lightData) pool" where
  "FairyLights_useFrame fr p = useFrame (lightCallback fr) p"

text \<open>
  The constructor callback of the lights' \<open>useMemo\<close>, for one object; \<open>rnd k\<close> is the
  value of the k-th call of \<open>Math.random()\<close> in it, and \<open>lights\<close> is
  \<open>CONFIG.colors.lights\<close>. \<open>Math.pow(t, 1.8)\<close> is \<open>powr\<close> (\<open>t\<close> is not negative).
\<close>

definition lights :: "string list" where
  "lights = [''#FF0000'', ''#00FF00'', ''#0000FF'', ''#FFFF00'']"

definition newLight :: "(nat \<Rightarrow> real) \<Rightarrow> lightData" where
  "newLight rnd =
     (let h = tree_height;
          t = rnd 0;
          y = (t powr 1.8) * h - h / 2;
          chaos = \<lparr>vx = (rnd 1 - 0.5) * 60, vy = y + (rnd 2 - 0.5) * 5, vz = (rnd 3 - 0.5) * 60\<rparr>;
          rBase = tree_radius;
          nh = (y + h / 2) / h;
          radius = rBase * (1 - nh) + 0.3;
          theta = rnd 4 * pi * 2;
          target = \<lparr>vx = radius * cos theta, vy = y, vz = radius * sin theta\<rparr>;
          color = lights ! nat \<lfloor>rnd 5 * real (length lights)\<rfloor>;
          sp = 2 + rnd 6 * 3
      in \<lparr>chaosPos = chaos, targetPos = target, currentPos = chaos,
          light_color = color, speed = sp, timeOffset = rnd 7 * 100, normalizedHeight = nh\<rparr>)"

text \<open>
  The constructor callback of the photo pool's \<open>useMemo\<close> for the object of index \<open>i\<close>:
  \<open>rnd k\<close> is the k-th call of \<open>Math.random()\<close> (a big photo draws none for its
  scale, so the later draws come one earlier), \<open>n_textures\<close> is \<open>textures.length\<close> and
  \<open>borders\<close> is \<open>CONFIG.colors.borders\<close>.
\<close>

definition borders :: "string list" where
  "borders = [''#FFFAF0'', ''#F0E68C'', ''#E6E6FA'', ''#FFB6C1'', ''#98FB98'', ''#87CEFA'', ''#FFDAB9'']"

definition newPhoto :: "nat \<Rightarrow> (nat \<Rightarrow> real) \<Rightarrow> nat \<Rightarrow> photoData" where
  "newPhoto n_textures rnd i =
     (let chaos = \<lparr>vx = (rnd 0 - 0.5) * 70, vy = (rnd 1 - 0.5) * 70, vz = (rnd 2 - 0.5) * 70\<rparr>;
          h = tree_height;
          y = rnd 3 * h - h / 2;
          rBase = tree_radius;
          radius = rBase * (1 - (y + h / 2) / h) + 0.5;
          theta = rnd 4 * pi * 2;
          target = \<lparr>vx = radius * cos theta, vy = y, vz = radius * sin theta\<rparr>;
          isBig = (rnd 5 < 0.2);
          baseScale = (if isBig then 2.2 else 0.8 + rnd 6 * 0.6);
          k = (if isBig then 6 else 7)
      in \<lparr>chaosPos = chaos, targetPos = target, currentPos = chaos,
          photo_scale = baseScale,
          weight = 0.8 + rnd k * 1.2,
          textureIndex = i mod n_textures,
          borderColor = borders ! nat \<lfloor>rnd (k + 1) * real (length borders)\<rfloor>,
          photo_chaosRotation = \<lparr>ex = rnd (k + 5) * pi, ey = rnd (k + 6) * pi, ez = rnd (k + 7) * pi\<rparr>,
          photo_rotationSpeed =
            \<lparr>vx = (rnd (k + 2) - 0.5) * 1.0, vy = (rnd (k + 3) - 0.5) * 1.0, vz = (rnd (k + 4) - 0.5) * 1.0\<rparr>,
          wobbleOffset = rnd (k + 8) * 10,
          wobbleSpeed = 0.5 + rnd (k + 9) * 0.5\<rparr>)"

section \<open>The login endpoint\<close>

text \<open>
  The values a request body and its fields can be. An object is its list of properties,
  keys distinct; reading a property that is absent, or any property of a value that is
  not an object, gives \<open>undefined\<close> (the two names read here are no built-in property
  of a string, a number, a boolean or an array).
\<close>

datatype json =
    JUndefined
  | JNull
  | JBool bool
  | JNumber real
  | JString string
  | JArray "json list"
  | JObject "(string \<times> json) list"

fun truthy :: "json \<Rightarrow> bool" where
  "truthy JUndefined = False"
| "truthy JNull = False"
| "truthy (JBool b) = b"
| "truthy (JNumber n) = (n \<noteq> 0)"
| "truthy (JString s) = (s \<noteq> [])"
| "truthy (JArray _) = True"
| "truthy (JObject _) = True"

fun property :: "json \<Rightarrow> string \<Rightarrow> json" where
  "property (JObject kvs) k = (case map_of kvs k of None \<Rightarrow> JUndefined | Some v \<Rightarrow> v)"
| "property _ k = JUndefined"

definition ALLOWED_USERNAME :: string where
  "ALLOWED_USERNAME = ''Guandacol''"

definition SESSION_COOKIE :: string where
  "SESSION_COOKIE = ''tree_session''"

text \<open>
  A request, as \<open>handler\<close> uses it: the method, what \<open>readSession(req)\<close> returns (the
  user name of a cookie with a valid signature, or null) and how \<open>readBody(req)\<close>
  settles (the parsed body, or a rejection).
\<close>

record request =
  httpMethod :: string
  session :: "string option"
  body :: "error + json"

datatype payload =
    NotAuthenticated
  | Authenticated json
  | Error string

text \<open>
  The response: status, headers set and JSON payload; \<open>queried\<close> tells whether the
  \<open>users\<close> table was read while the request was handled.
\<close>

record response =
  status :: nat
  headers :: "(string \<times> string) list"
  payload :: payload
  queried :: bool

definition reply :: "nat \<Rightarrow> payload \<Rightarrow> bool \<Rightarrow> response" where
  "reply code p q = \<lparr>status = code, headers = [], payload = p, queried = q\<rparr>"

text \<open>
  \<open>setSessionCookie\<close>; \<open>sign\<close> is the HMAC of the user name under the server's secret,
  and \<open>Max-Age\<close> is \<open>60 * 60 * 24 * 7\<close> written out.
\<close>

definition setSessionCookie :: "(string \<Rightarrow> string) \<Rightarrow> string \<Rightarrow> string \<times> string" where
  "setSessionCookie sign username =
     (''Set-Cookie'',
      SESSION_COOKIE @ ''='' @ username @ ''.'' @ sign username @
      ''; Path=/; HttpOnly; SameSite=Lax; Max-Age=604800; Secure'')"

text \<open>
  \<open>handler\<close>. The parameters stand for what it awaits: \<open>sql name\<close> is the outcome of
  the query for the hashes stored under \<open>name\<close> (a row's hash may be null), \<open>compare\<close> is
  \<open>bcrypt.compare\<close>, which may reject, and \<open>sign\<close> is as above. Anything thrown or
  rejected inside the \<open>try\<close> block is answered by the \<open>catch\<close> with status 500.
\<close>

definition handler ::
  "(json \<Rightarrow> error + string option list) \<Rightarrow> (json \<Rightarrow> string \<Rightarrow> error + bool)
     \<Rightarrow> (string \<Rightarrow> string) \<Rightarrow> request \<Rightarrow> response" where
  "handler sql compare sign req =
     (if httpMethod req = ''GET'' then
        (case session req of
           None \<Rightarrow> reply 401 NotAuthenticated False
         | Some username \<Rightarrow>
             if username = [] then reply 401 NotAuthenticated False
             else reply 200 (Authenticated (JString username)) False)
      else if httpMethod req \<noteq> ''POST'' then
        (reply 405 (Error ''Method Not Allowed'') False)\<lparr>headers := [(''Allow'', ''GET, POST'')]\<rparr>
      else
        (case body req of
           Inl e \<Rightarrow> reply 500 (Error ''Unexpected error'') False
         | Inr parsed \<Rightarrow>
             (let fields = (if truthy parsed then parsed else JObject []);
                  username = property fields ''username'';
                  password = property fields ''password''
              in if \<not> truthy username \<or> \<not> truthy password then
                   reply 400 (Error ''username and password are required'') False
                 else if username \<noteq> JString ALLOWED_USERNAME then
                   reply 401 (Error ''Invalid credentials'') False
                 else
                   (case sql username of
                      Inl e \<Rightarrow> reply 500 (Error ''Unexpected error'') True
                    | Inr rows \<Rightarrow>
                        (case rows of
                           [] \<Rightarrow> reply 401 (Error ''Invalid credentials'') True
                         | row # _ \<Rightarrow>
                             (case row of
                                None \<Rightarrow> reply 401 (Error ''Invalid credentials'') True
                              | Some storedPassword \<Rightarrow>
                                  if length storedPassword > 0 then
                                    (case compare password storedPassword of
                                       Inl e \<Rightarrow> reply 500 (Error ''Unexpected error'') True
                                     | Inr valid \<Rightarrow>
                                         if \<not> valid then reply 401 (Error ''Invalid credentials'') True
                                         else (reply 200 (Authenticated username) True)
                                                \<lparr>headers := [setSessionCookie sign ALLOWED_USERNAME]\<rparr>)
                                  else reply 401 (Error ''Invalid credentials'') True))))))"

section \<open>Properties of the gesture controller\<close>

lemma binade_numeral:
  "binade (numeral k) a e =
     (if 2 \<le> a then binade (pred_numeral k) (a / 2) (e + 1)
      else if a < 1 then binade (pred_numeral k) (a * 2) (e - 1)
      else e)"
  by (simp add: numeral_eq_Suc)

lemmas double_eval = double_def binade_numeral pow2_def roundHalfEven_def Let_def

lemma double_threshold:
  "double 0.4 = 3602879701896397 / 9007199254740992"
  "double (2 / 5) = 3602879701896397 / 9007199254740992"
  by (simp_all add: double_eval)

lemma modeCommands_append: "modeCommands (xs @ ys) = modeCommands xs @ modeCommands ys"
  by (induction xs rule: modeCommands.induct) simp_all

lemma velocities_append: "velocities (xs @ ys) = velocities xs @ velocities ys"
  by (induction xs rule: velocities.induct) simp_all

lemma predictWebcam_first:
  assumes "gestures results = (c # cs) # hands"
  shows "modeCommands (calls (predictWebcam debugMode now results st)) =
           (if score c > double 0.4 \<and> categoryName c = ''Open_Palm'' then [CHAOS]
            else if score c > double 0.4 \<and> categoryName c = ''Closed_Fist'' then [FORMED]
            else [])"
  using assms
  by (auto simp: predictWebcam_def Let_def isClosedFist_def modeCommands_append
      split: list.splits)

lemma sceneState_fold:
  "sceneState (fold (invoke b) cs a) =
     (if modeCommands cs = [] then sceneState a else last (modeCommands cs))"
  by (induction cs arbitrary: a rule: modeCommands.induct) (simp_all add: handleMove_def)


lemma sceneState_dispatch:
  "sceneState (dispatch cs a) =
     (if modeCommands cs = [] then sceneState a else last (modeCommands cs))"
  by (simp add: dispatch_def Let_def alignSpin_def sceneState_fold)



lemma predictWebcam_tracked:
  assumes "gestures results = (c # cs) # hands" and "landmarks results = (p # ps) # others"
  shows "velocities (calls (predictWebcam debugMode now results st)) =
           [moveValue (categoryName c) (score c) st now (lm_x p)]"
    and "tracked (predictWebcam debugMode now results st) =
           \<lparr>lastX = Some (lm_x p), lastTimestamp = Some now\<rparr>"
    and "thrown (predictWebcam debugMode now results st) = None"
  using assms
  by (simp_all add: predictWebcam_def Let_def velocities_append)

lemma predictWebcam_no_gesture:
  assumes "gestures results = []"
  shows "velocities (calls (predictWebcam debugMode now results st)) = [0]"
    and "tracked (predictWebcam debugMode now results st) = \<lparr>lastX = None, lastTimestamp = None\<rparr>"
    and "thrown (predictWebcam debugMode now results st) = None"
  using assms
  by (simp_all add: predictWebcam_def)

lemma moveValue_untracked: "moveValue name sc \<lparr>lastX = None, lastTimestamp = None\<rparr> now currentX = 0"
  by (simp add: moveValue_def)

lemma velocities_after_reset:
  "list_all (\<lambda>v. v = 0)
     (velocities (calls (predictWebcam debugMode now results \<lparr>lastX = None, lastTimestamp = None\<rparr>)))"
  by (simp add: predictWebcam_def Let_def velocities_append moveValue_untracked
      split: list.splits)

text \<open>
  Claim C3. Only the first classification of the first hand is read. It gives a mode
  command exactly when its confidence is strictly above 0.4 (the double nearest to it,
  as the literal is read) and its label is \<open>Open_Palm\<close> (command CHAOS) or
  \<open>Closed_Fist\<close> (command FORMED); a confidence of exactly that double gives none. A frame without classification gives none, and a frame
  that gives no command leaves the scene state of the application as it was.
\<close>

theorem C3_mode_command_threshold:
  "(gestures results = (c # cs) # hands \<longrightarrow>
      modeCommands (calls (predictWebcam debugMode now results st)) =
        (if score c > double 0.4 \<and> categoryName c = ''Open_Palm'' then [CHAOS]
         else if score c > double 0.4 \<and> categoryName c = ''Closed_Fist'' then [FORMED]
         else []))
   \<and> (gestures results = [] \<longrightarrow>
        modeCommands (calls (predictWebcam debugMode now results st)) = [])
   \<and> (modeCommands (calls (predictWebcam debugMode now results st)) = [] \<longrightarrow>
        sceneState (dispatch (calls (predictWebcam debugMode now results st)) a) = sceneState a)"
proof (intro conjI impI)
  assume "gestures results = (c # cs) # hands"
  then show "modeCommands (calls (predictWebcam debugMode now results st)) =
        (if score c > double 0.4 \<and> categoryName c = ''Open_Palm'' then [CHAOS]
         else if score c > double 0.4 \<and> categoryName c = ''Closed_Fist'' then [FORMED]
         else [])"
    by (rule predictWebcam_first)
next
  assume "gestures results = []"
  then show "modeCommands (calls (predictWebcam debugMode now results st)) = []"
    by (simp add: predictWebcam_def)
next
  assume "modeCommands (calls (predictWebcam debugMode now results st)) = []"
  then show "sceneState (dispatch (calls (predictWebcam debugMode now results st)) a) = sceneState a"
    by (simp add: sceneState_dispatch)
qed

theorem C3_threshold_witness:
  "modeCommands (calls (predictWebcam False 0
        \<lparr>gestures = [[\<lparr>categoryName = ''Open_Palm'', score = 3602879701896397 / 9007199254740992\<rparr>]], landmarks = []\<rparr>
        \<lparr>lastX = None, lastTimestamp = None\<rparr>)) = []
   \<and> sceneState (dispatch (calls (predictWebcam False 0
        \<lparr>gestures = [[\<lparr>categoryName = ''Open_Palm'', score = 3602879701896397 / 9007199254740992\<rparr>]], landmarks = []\<rparr>
        \<lparr>lastX = None, lastTimestamp = None\<rparr>))
        \<lparr>sceneState = FORMED, rotationSpeed = 0.01, aiStatus = []\<rparr>) = FORMED
   \<and> modeCommands (calls (predictWebcam False 0
        \<lparr>gestures = [[\<lparr>categoryName = ''Open_Palm'', score = 0.41\<rparr>]], landmarks = []\<rparr>
        \<lparr>lastX = None, lastTimestamp = None\<rparr>)) = [CHAOS]
   \<and> modeCommands (calls (predictWebcam False 0
        \<lparr>gestures = [[\<lparr>categoryName = ''Closed_Fist'', score = 0.41\<rparr>]], landmarks = []\<rparr>
        \<lparr>lastX = None, lastTimestamp = None\<rparr>)) = [FORMED]
   \<and> modeCommands (calls (predictWebcam False 0
        \<lparr>gestures = [], landmarks = []\<rparr> \<lparr>lastX = None, lastTimestamp = None\<rparr>)) = []"
  using
    C3_mode_command_threshold [of
      "\<lparr>gestures = [[\<lparr>categoryName = ''Open_Palm'', score = 3602879701896397 / 9007199254740992\<rparr>]], landmarks = []\<rparr>"
      "\<lparr>categoryName = ''Open_Palm'', score = 3602879701896397 / 9007199254740992\<rparr>" "[]" "[]" False 0
      "\<lparr>lastX = None, lastTimestamp = None\<rparr>"
      "\<lparr>sceneState = FORMED, rotationSpeed = 0.01, aiStatus = []\<rparr>"]
    C3_mode_command_threshold [of
      "\<lparr>gestures = [[\<lparr>categoryName = ''Open_Palm'', score = 0.41\<rparr>]], landmarks = []\<rparr>"
      "\<lparr>categoryName = ''Open_Palm'', score = 0.41\<rparr>" "[]" "[]" False 0
      "\<lparr>lastX = None, lastTimestamp = None\<rparr>"
      "\<lparr>sceneState = FORMED, rotationSpeed = 0.01, aiStatus = []\<rparr>"]
    C3_mode_command_threshold [of
      "\<lparr>gestures = [[\<lparr>categoryName = ''Closed_Fist'', score = 0.41\<rparr>]], landmarks = []\<rparr>"
      "\<lparr>categoryName = ''Closed_Fist'', score = 0.41\<rparr>" "[]" "[]" False 0
      "\<lparr>lastX = None, lastTimestamp = None\<rparr>"
      "\<lparr>sceneState = FORMED, rotationSpeed = 0.01, aiStatus = []\<rparr>"]
    C3_mode_command_threshold [of
      "\<lparr>gestures = [], landmarks = []\<rparr>"
      "\<lparr>categoryName = ''None'', score = 0\<rparr>" "[]" "[]" False 0
      "\<lparr>lastX = None, lastTimestamp = None\<rparr>"
      "\<lparr>sceneState = FORMED, rotationSpeed = 0.01, aiStatus = []\<rparr>"]
  by (simp add: double_threshold)

text \<open>
  Claim C2, as stated, fails: the velocity is computed in doubles. In the claim's own
  scenario the second x is the double nearest to 0.40, the difference to 0.50 is
  \<open>-0.09999999999999998\<close> and the velocity passed is \<open>1.7499999999999996\<close>, which is
  \<open>1.75 - 2 ^ -51\<close>, not 1.75. And a hand that goes from 0.5 to
  \<open>0.49972642857142857\<close> in 383 ms has a velocity above 0.0002 by the formula, but the
  doubles give exactly the double \<open>0.0002\<close>, which is not above the threshold: 0 is
  passed.
\<close>

theorem C2_counterexample:
  "double 0.40 = 3602879701896397 / 9007199254740992
   \<and> velocities (calls (predictWebcam False 16
        \<lparr>gestures = [[\<lparr>categoryName = ''Open_Palm'', score = 0.9\<rparr>]],
         landmarks = [[\<lparr>lm_x = 3602879701896397 / 9007199254740992, lm_y = 0.5, lm_z = 0\<rparr>]]\<rparr>
        \<lparr>lastX = Some 0.50, lastTimestamp = Some 0\<rparr>)) = [3940649673949183 / 2251799813685248]
   \<and> (3940649673949183 / 2251799813685248 :: real) \<noteq> 1.75
   \<and> (0.0002 :: real) < \<bar>- (4501135515002949 / 9007199254740992 - 0.50) / max (383 - 0) 1 * 280\<bar>
   \<and> velocities (calls (predictWebcam False 383
        \<lparr>gestures = [[\<lparr>categoryName = ''Open_Palm'', score = 0.9\<rparr>]],
         landmarks = [[\<lparr>lm_x = 4501135515002949 / 9007199254740992, lm_y = 0.5, lm_z = 0\<rparr>]]\<rparr>
        \<lparr>lastX = Some 0.50, lastTimestamp = Some 0\<rparr>)) = [0]"
  by (simp add: predictWebcam_def moveValue_def isOpenPalm_def isClosedFist_def Let_def
        double_threshold)
     (simp add: double_eval)

text \<open>
  Claim C2, amended. With a hand in the frame, a first classification \<open>Open_Palm\<close> or
  \<open>Closed_Fist\<close> of confidence strictly above 0.4 and a previous x and timestamp, the
  one velocity passed to \<open>onMove\<close> is \<open>-(currentX - lastX) / max (now - lastTimestamp) 1 * 280\<close>
  as doubles compute it, the two subtractions, the division and the multiplication each
  rounded to the nearest double, and it is replaced by 0 when its magnitude is at most
  the double \<open>0.0002\<close>. From x = 0.50 to the double 0.40 in 16 ms the velocity is
  \<open>1.7499999999999996\<close>; from 0.50 to 0.25 it is 4.375 (the witness).
\<close>

theorem C2_rotation_velocity:
  assumes "gestures results = (c # cs) # hands"
    and "landmarks results = (p # ps) # others"
    and "categoryName c = ''Open_Palm'' \<or> categoryName c = ''Closed_Fist''"
    and "score c > double 0.4"
    and "lastX st = Some prevX"
    and "lastTimestamp st = Some prevTimestamp"
  shows "velocities (calls (predictWebcam debugMode now results st)) =
           [if \<bar>double (double (- double (lm_x p - prevX) / max (double (now - prevTimestamp)) 1) * 280)\<bar>
                 \<le> double 0.0002
            then 0
            else double (double (- double (lm_x p - prevX) / max (double (now - prevTimestamp)) 1) * 280)]"
proof -
  define velocity
    where "velocity = double (double (- double (lm_x p - prevX) / max (double (now - prevTimestamp)) 1) * 280)"
  have "isClosedFist (categoryName c) (score c) \<or> isOpenPalm (categoryName c) (score c)"
    using assms(3,4) by (auto simp: isOpenPalm_def isClosedFist_def)
  then have "moveValue (categoryName c) (score c) st now (lm_x p) =
          (if \<bar>velocity\<bar> > double 0.0002 then velocity else 0)"
    unfolding velocity_def moveValue_def Let_def
    by (simp only: assms(5,6) option.case prod.case if_True)
  also have "\<dots> = (if \<bar>velocity\<bar> \<le> double 0.0002 then 0 else velocity)"
    by (simp only: not_le [symmetric] if_not_P if_P split: if_splits) auto
  finally have "moveValue (categoryName c) (score c) st now (lm_x p) =
          (if \<bar>velocity\<bar> \<le> double 0.0002 then 0 else velocity)" .
  then show ?thesis
    unfolding velocity_def predictWebcam_tracked(1) [OF assms(1,2)]
    by (simp only:)
qed

theorem C2_rotation_velocity_witness:
  "velocities (calls (predictWebcam False 16
        \<lparr>gestures = [[\<lparr>categoryName = ''Open_Palm'', score = 0.9\<rparr>]],
         landmarks = [[\<lparr>lm_x = 3602879701896397 / 9007199254740992, lm_y = 0.5, lm_z = 0\<rparr>]]\<rparr>
        \<lparr>lastX = Some 0.50, lastTimestamp = Some 0\<rparr>)) = [3940649673949183 / 2251799813685248]
   \<and> velocities (calls (predictWebcam False 16
        \<lparr>gestures = [[\<lparr>categoryName = ''Closed_Fist'', score = 0.9\<rparr>]],
         landmarks = [[\<lparr>lm_x = 0.25, lm_y = 0.5, lm_z = 0\<rparr>]]\<rparr>
        \<lparr>lastX = Some 0.50, lastTimestamp = Some 0\<rparr>)) = [4.375]"
  using
    C2_rotation_velocity [of
      "\<lparr>gestures = [[\<lparr>categoryName = ''Open_Palm'', score = 0.9\<rparr>]],
         landmarks = [[\<lparr>lm_x = 3602879701896397 / 9007199254740992, lm_y = 0.5, lm_z = 0\<rparr>]]\<rparr>"
      "\<lparr>categoryName = ''Open_Palm'', score = 0.9\<rparr>" "[]" "[]"
      "\<lparr>lm_x = 3602879701896397 / 9007199254740992, lm_y = 0.5, lm_z = 0\<rparr>" "[]" "[]"
      "\<lparr>lastX = Some 0.50, lastTimestamp = Some 0\<rparr>" "0.50" 0 False 16]
    C2_rotation_velocity [of
      "\<lparr>gestures = [[\<lparr>categoryName = ''Closed_Fist'', score = 0.9\<rparr>]],
         landmarks = [[\<lparr>lm_x = 0.25, lm_y = 0.5, lm_z = 0\<rparr>]]\<rparr>"
      "\<lparr>categoryName = ''Closed_Fist'', score = 0.9\<rparr>" "[]" "[]"
      "\<lparr>lm_x = 0.25, lm_y = 0.5, lm_z = 0\<rparr>" "[]" "[]"
      "\<lparr>lastX = Some 0.50, lastTimestamp = Some 0\<rparr>" "0.50" 0 False 16]
  by (simp add: double_eval)

text \<open>
  Claim C1, as stated, fails: a frame whose hand is seen but whose first classification
  does not qualify (\<open>Open_Palm\<close> at confidence 0.3) gets velocity 0, but \<open>lastX\<close> and
  \<open>lastTimestamp\<close> are not reset to null: they take this frame's x and time, and the
  next qualifying frame, at the double 0.40, computes a velocity from them (here
  \<open>1.7499999999999996\<close>).
\<close>

theorem C1_counterexample:
  "\<not> score \<lparr>categoryName = ''Open_Palm'', score = 0.3\<rparr> > double 0.4
   \<and> velocities (calls (predictWebcam False 0
        \<lparr>gestures = [[\<lparr>categoryName = ''Open_Palm'', score = 0.3\<rparr>]],
         landmarks = [[\<lparr>lm_x = 0.50, lm_y = 0.5, lm_z = 0\<rparr>]]\<rparr>
        \<lparr>lastX = None, lastTimestamp = None\<rparr>)) = [0]
   \<and> lastX (tracked (predictWebcam False 0
        \<lparr>gestures = [[\<lparr>categoryName = ''Open_Palm'', score = 0.3\<rparr>]],
         landmarks = [[\<lparr>lm_x = 0.50, lm_y = 0.5, lm_z = 0\<rparr>]]\<rparr>
        \<lparr>lastX = None, lastTimestamp = None\<rparr>)) \<noteq> None
   \<and> lastTimestamp (tracked (predictWebcam False 0
        \<lparr>gestures = [[\<lparr>categoryName = ''Open_Palm'', score = 0.3\<rparr>]],
         landmarks = [[\<lparr>lm_x = 0.50, lm_y = 0.5, lm_z = 0\<rparr>]]\<rparr>
        \<lparr>lastX = None, lastTimestamp = None\<rparr>)) \<noteq> None
   \<and> velocities (calls (predictWebcam False 16
        \<lparr>gestures = [[\<lparr>categoryName = ''Open_Palm'', score = 0.9\<rparr>]],
         landmarks = [[\<lparr>lm_x = 3602879701896397 / 9007199254740992, lm_y = 0.5, lm_z = 0\<rparr>]]\<rparr>
        (tracked (predictWebcam False 0
          \<lparr>gestures = [[\<lparr>categoryName = ''Open_Palm'', score = 0.3\<rparr>]],
           landmarks = [[\<lparr>lm_x = 0.50, lm_y = 0.5, lm_z = 0\<rparr>]]\<rparr>
          \<lparr>lastX = None, lastTimestamp = None\<rparr>)))) = [3940649673949183 / 2251799813685248]"
  by (simp add: predictWebcam_def moveValue_def isOpenPalm_def isClosedFist_def Let_def
        double_threshold)
     (simp add: double_eval)

text \<open>
  Claim C1, amended. A frame with no classification gets velocity 0 and resets
  \<open>lastX\<close> and \<open>lastTimestamp\<close> to null, so that every velocity of the frame after it
  is 0. A frame with a hand (a classification and a landmark) whose first classification
  does not qualify gets velocity 0 and keeps tracking: \<open>lastX\<close> and \<open>lastTimestamp\<close>
  become this frame's x and time.
\<close>

theorem C1_tracking_reset:
  "(gestures results = [] \<longrightarrow>
      velocities (calls (predictWebcam debugMode now results st)) = [0]
      \<and> tracked (predictWebcam debugMode now results st) = \<lparr>lastX = None, lastTimestamp = None\<rparr>
      \<and> list_all (\<lambda>v. v = 0)
          (velocities (calls (predictWebcam debugMode_next now_next results_next
             (tracked (predictWebcam debugMode now results st))))))
   \<and> (gestures results = (c # cs) # hands \<and> landmarks results = (p # ps) # others
        \<and> \<not> (score c > double 0.4 \<and> (categoryName c = ''Open_Palm'' \<or> categoryName c = ''Closed_Fist'')) \<longrightarrow>
      velocities (calls (predictWebcam debugMode now results st)) = [0]
      \<and> tracked (predictWebcam debugMode now results st) =
          \<lparr>lastX = Some (lm_x p), lastTimestamp = Some now\<rparr>)"
proof (intro conjI impI)
  assume none: "gestures results = []"
  show "velocities (calls (predictWebcam debugMode now results st)) = [0]"
    using none by (rule predictWebcam_no_gesture(1))
  show reset: "tracked (predictWebcam debugMode now results st) = \<lparr>lastX = None, lastTimestamp = None\<rparr>"
    using none by (rule predictWebcam_no_gesture(2))
  show "list_all (\<lambda>v. v = 0)
          (velocities (calls (predictWebcam debugMode_next now_next results_next
             (tracked (predictWebcam debugMode now results st)))))"
    unfolding reset by (rule velocities_after_reset)
next
  assume h: "gestures results = (c # cs) # hands \<and> landmarks results = (p # ps) # others
        \<and> \<not> (score c > double 0.4 \<and> (categoryName c = ''Open_Palm'' \<or> categoryName c = ''Closed_Fist''))"
  then have "moveValue (categoryName c) (score c) st now (lm_x p) = 0"
    by (auto simp: moveValue_def isOpenPalm_def isClosedFist_def split: option.splits)
  with h show "velocities (calls (predictWebcam debugMode now results st)) = [0]"
    by (simp add: predictWebcam_tracked(1))
  from h show "tracked (predictWebcam debugMode now results st) =
          \<lparr>lastX = Some (lm_x p), lastTimestamp = Some now\<rparr>"
    by (simp add: predictWebcam_tracked(2))
qed

theorem C1_tracking_reset_witness:
  "velocities (calls (predictWebcam False 16 \<lparr>gestures = [], landmarks = []\<rparr>
      \<lparr>lastX = Some 0.50, lastTimestamp = Some 0\<rparr>)) = [0]
   \<and> tracked (predictWebcam False 16 \<lparr>gestures = [], landmarks = []\<rparr>
      \<lparr>lastX = Some 0.50, lastTimestamp = Some 0\<rparr>) = \<lparr>lastX = None, lastTimestamp = None\<rparr>
   \<and> velocities (calls (predictWebcam False 32
        \<lparr>gestures = [[\<lparr>categoryName = ''Open_Palm'', score = 0.9\<rparr>]],
         landmarks = [[\<lparr>lm_x = 0.40, lm_y = 0.5, lm_z = 0\<rparr>]]\<rparr>
        (tracked (predictWebcam False 16 \<lparr>gestures = [], landmarks = []\<rparr>
           \<lparr>lastX = Some 0.50, lastTimestamp = Some 0\<rparr>)))) = [0]
   \<and> velocities (calls (predictWebcam False 16
        \<lparr>gestures = [[\<lparr>categoryName = ''Victory'', score = 0.9\<rparr>]],
         landmarks = [[\<lparr>lm_x = 0.40, lm_y = 0.5, lm_z = 0\<rparr>]]\<rparr>
        \<lparr>lastX = Some 0.50, lastTimestamp = Some 0\<rparr>)) = [0]
   \<and> tracked (predictWebcam False 16
        \<lparr>gestures = [[\<lparr>categoryName = ''Victory'', score = 0.9\<rparr>]],
         landmarks = [[\<lparr>lm_x = 0.40, lm_y = 0.5, lm_z = 0\<rparr>]]\<rparr>
        \<lparr>lastX = Some 0.50, lastTimestamp = Some 0\<rparr>) = \<lparr>lastX = Some 0.40, lastTimestamp = Some 16\<rparr>"
  using
    C1_tracking_reset [where results = "\<lparr>gestures = [], landmarks = []\<rparr>"
      and debugMode = False and now = 16
      and st = "\<lparr>lastX = Some 0.50, lastTimestamp = Some 0\<rparr>"
      and debugMode_next = False and now_next = 32
      and results_next = "\<lparr>gestures = [[\<lparr>categoryName = ''Open_Palm'', score = 0.9\<rparr>]],
         landmarks = [[\<lparr>lm_x = 0.40, lm_y = 0.5, lm_z = 0\<rparr>]]\<rparr>"]
    C1_tracking_reset [where results = "\<lparr>gestures = [[\<lparr>categoryName = ''Victory'', score = 0.9\<rparr>]],
         landmarks = [[\<lparr>lm_x = 0.40, lm_y = 0.5, lm_z = 0\<rparr>]]\<rparr>"
      and debugMode = False and now = 16
      and st = "\<lparr>lastX = Some 0.50, lastTimestamp = Some 0\<rparr>"
      and c = "\<lparr>categoryName = ''Victory'', score = 0.9\<rparr>" and cs = "[]" and hands = "[]"
      and p = "\<lparr>lm_x = 0.40, lm_y = 0.5, lm_z = 0\<rparr>" and ps = "[]" and others = "[]"]
  by (simp add: predictWebcam_def moveValue_def isOpenPalm_def isClosedFist_def double_threshold)

section \<open>Properties of the rotation speed\<close>



section \<open>Properties of the position blend\<close>






lemma forEach_length:
  "forEach f cs ds = Inr (cs', ds') \<Longrightarrow> length cs' = length cs \<and> length ds' = length ds \<and> length cs \<le> length ds"
  by (induction f cs ds arbitrary: cs' ds' rule: forEach.induct)
     (auto split: sum.splits prod.splits)

lemma forEach_nth:
  "forEach f cs ds = Inr (cs', ds') \<Longrightarrow> i < length cs \<Longrightarrow>
     cs' ! i = fst (f (cs ! i) (ds ! i)) \<and> ds' ! i = snd (f (cs ! i) (ds ! i))"
proof (induction f cs ds arbitrary: cs' ds' i rule: forEach.induct)
  case (3 f c cs d ds)
  then show ?case
    by (cases i) (auto split: sum.splits prod.splits)
qed simp_all

lemma forEach_rest:
  "forEach f cs ds = Inr (cs', ds') \<Longrightarrow> length cs \<le> i \<Longrightarrow> ds' ! i = ds ! i"
proof (induction f cs ds arbitrary: cs' ds' i rule: forEach.induct)
  case (3 f c cs d ds)
  then show ?case
    by (cases i) (auto split: sum.splits prod.splits)
qed simp_all


lemma forEach_throws:
  "length ds < length cs \<Longrightarrow> forEach f cs ds = Inl TypeError"
  by (induction f cs ds rule: forEach.induct) (auto split: sum.splits prod.splits)

lemma useFrame_nth:
  assumes "useFrame f p = Inr p'" and "groupRef p = Some cs" and "i < length cs"
  shows "data p' ! i = snd (f (cs ! i) (data p ! i))"
    and "\<exists>cs'. groupRef p' = Some cs' \<and> length cs' = length cs \<and> cs' ! i = fst (f (cs ! i) (data p ! i))"
    and "i < length (data p)"
  using assms forEach_nth [of f cs "data p" _ _ i] forEach_length [of f cs "data p"]
  by (auto simp: useFrame_def split: sum.splits prod.splits)

lemma useFrame_length:
  "useFrame f p = Inr p' \<Longrightarrow> length (data p') = length (data p)"
  using forEach_length [of f _ "data p"]
  by (auto simp: useFrame_def split: option.splits sum.splits prod.splits)

lemma useFrame_related:
  assumes run: "useFrame f p = Inr p'"
    and step: "\<And>c d. R d (snd (f c d))"
    and refl: "\<And>d. R d d"
  shows "R (data p ! i) (data p' ! i)"
proof (cases "groupRef p")
  case None
  with run have "p' = p" by (simp add: useFrame_def)
  then show ?thesis by (simp add: refl)
next
  case (Some cs)
  with run obtain cs' ds' where fe: "forEach f cs (data p) = Inr (cs', ds')" and p': "data p' = ds'"
    by (auto simp: useFrame_def split: sum.splits prod.splits)
  show ?thesis
  proof (cases "i < length cs")
    case True
    with forEach_nth [OF fe] have "ds' ! i = snd (f (cs ! i) (data p ! i))" by simp
    then show ?thesis by (simp add: p' step)
  next
    case False
    with forEach_rest [OF fe, of i] have "ds' ! i = data p ! i" by simp
    then show ?thesis by (simp add: p' refl)
  qed
qed

lemma frames_related:
  assumes run: "frames step frs p = Inr p'"
    and step: "\<And>fr q q' i. step fr q = Inr q' \<Longrightarrow> R (data q ! i) (data q' ! i)"
    and refl: "\<And>d. R d d"
    and trans: "\<And>a b c. R a b \<Longrightarrow> R b c \<Longrightarrow> R a c"
  shows "R (data p ! i) (data p' ! i)"
  using run
proof (induction frs arbitrary: p)
  case Nil
  then show ?case by (simp add: refl)
next
  case (Cons fr frs)
  then obtain q where q: "step fr p = Inr q" and rest: "frames step frs q = Inr p'"
    by (auto split: sum.splits)
  from step [OF q] Cons.IH [OF rest] show ?case
    by (rule trans)
qed

lemma frames_length:
  assumes run: "frames step frs p = Inr p'"
    and step: "\<And>fr q q'. step fr q = Inr q' \<Longrightarrow> length (data q') = length (data q)"
  shows "length (data p') = length (data p)"
  using run
proof (induction frs arbitrary: p)
  case Nil
  then show ?case by simp
next
  case (Cons fr frs)
  then obtain q where q: "step fr p = Inr q" and rest: "frames step frs q = Inr p'"
    by (auto split: sum.splits)
  from step [OF q] Cons.IH [OF rest] show ?case
    by simp
qed

lemma photoCallback_data:
  "snd (photoCallback lookAt fr c d) =
     d\<lparr>currentPos := lerp (currentPos d) (target (state fr = FORMED) d)
            (delta fr * photoRate (state fr = FORMED) d)\<rparr>"
  by (simp add: photoCallback_def Let_def)

lemma elementCallback_data:
  "snd (elementCallback fr c d) =
     d\<lparr>currentPos := lerp (currentPos d) (target (state fr = FORMED) d) (delta fr * 1.5)\<rparr>"
  by (simp add: elementCallback_def Let_def)

lemma lightCallback_data:
  "snd (lightCallback fr c d) =
     d\<lparr>currentPos := lerp (currentPos d) (target (state fr = FORMED) d) (delta fr * 2.0)\<rparr>"
  by (simp add: lightCallback_def Let_def)













section \<open>Properties of the fairy lights\<close>

lemma lightCallback_material:
  "material c = Some m \<Longrightarrow>
     material (fst (lightCallback fr c d)) =
       Some (m\<lparr>emissiveIntensity :=
         (if state fr = FORMED then (3 + intensity (elapsedTime fr) d * 4) * heightBoost d else 0)\<rparr>)"
  by (simp add: lightCallback_def Let_def)

lemma intensity_periodic:
  assumes "speed d \<noteq> 0"
  shows "intensity (t + 2 * pi / speed d) d = intensity t d"
proof -
  from assms have "(t + 2 * pi / speed d) * speed d + timeOffset d =
      (t * speed d + timeOffset d) + 2 * pi"
    by (simp add: field_simps)
  then show ?thesis
    by (simp only: intensity_def sin_periodic)
qed

lemma intensity_bounds: "0 \<le> intensity t d \<and> intensity t d \<le> 1"
proof -
  have "0 \<le> sin (t * speed d + timeOffset d) + 1"
    using sin_ge_minus_one [of "t * speed d + timeOffset d"] by linarith
  moreover have "sin (t * speed d + timeOffset d) + 1 \<le> 2"
    using sin_le_one [of "t * speed d + timeOffset d"] by linarith
  ultimately show ?thesis
    by (simp add: intensity_def)
qed

lemma heightBoost_antimono:
  "normalizedHeight d < normalizedHeight e \<Longrightarrow> heightBoost e < heightBoost d"
  by (simp add: heightBoost_def)

lemma newLight_height:
  "normalizedHeight (newLight rnd) =
     (vy (targetPos (newLight rnd)) + tree_height / 2) / tree_height"
  by (simp add: newLight_def Let_def)

text \<open>
  Claim C7. A frame sets the emissive intensity of every light that has a material: to
  0 when the scene state is CHAOS, wherever the light is, and when it is FORMED to
  \<open>(3 + 4 * intensity) * heightBoost\<close>, where \<open>intensity\<close> is \<open>(sin (time * speed + timeOffset) + 1) / 2\<close>,
  between 0 and 1 and periodic in the elapsed time with period \<open>2 * pi / speed\<close>, and
  \<open>heightBoost\<close> is \<open>0.55 + (1 - normalizedHeight) * 0.9\<close>, larger for a smaller
  normalized height. The normalized height of a light is that of its place in the cone,
  so a light whose target is lower has the larger boost.
\<close>

theorem C7_light_intensity:
  "(FairyLights_useFrame fr bulbs = Inr bulbs_next \<and> groupRef bulbs = Some spheres
      \<and> groupRef bulbs_next = Some spheres_next \<and> k < length spheres
      \<and> material (spheres ! k) = Some m \<longrightarrow>
      (state fr = CHAOS \<longrightarrow>
         material (spheres_next ! k) = Some (m\<lparr>emissiveIntensity := 0\<rparr>))
      \<and> (state fr = FORMED \<longrightarrow>
         material (spheres_next ! k) =
           Some (m\<lparr>emissiveIntensity :=
             (3 + intensity (elapsedTime fr) (data bulbs ! k) * 4) * heightBoost (data bulbs ! k)\<rparr>)))
   \<and> intensity t d = (sin (t * speed d + timeOffset d) + 1) / 2
   \<and> 0 \<le> intensity t d \<and> intensity t d \<le> 1
   \<and> (speed d \<noteq> 0 \<longrightarrow> intensity (t + 2 * pi / speed d) d = intensity t d)
   \<and> heightBoost d = 0.55 + (1 - normalizedHeight d) * 0.9
   \<and> (normalizedHeight d < normalizedHeight e \<longrightarrow> heightBoost e < heightBoost d)
   \<and> normalizedHeight (newLight rnd) =
        (vy (targetPos (newLight rnd)) + tree_height / 2) / tree_height
   \<and> (vy (targetPos (newLight lower)) < vy (targetPos (newLight higher)) \<longrightarrow>
        heightBoost (newLight higher) < heightBoost (newLight lower))"
proof -
  have lit: "material (spheres_next ! k) =
      Some (m\<lparr>emissiveIntensity :=
        (if state fr = FORMED
         then (3 + intensity (elapsedTime fr) (data bulbs ! k) * 4) * heightBoost (data bulbs ! k)
         else 0)\<rparr>)"
    if run: "FairyLights_useFrame fr bulbs = Inr bulbs_next" and cs: "groupRef bulbs = Some spheres"
      and cs': "groupRef bulbs_next = Some spheres_next" and k: "k < length spheres"
      and m: "material (spheres ! k) = Some m"
  proof -
    from useFrame_nth(2) [OF run [unfolded FairyLights_useFrame_def] cs k] cs'
    have "spheres_next ! k = fst (lightCallback fr (spheres ! k) (data bulbs ! k))"
      by auto
    with m show ?thesis
      by (simp add: lightCallback_material)
  qed
  have cone: "heightBoost (newLight higher) < heightBoost (newLight lower)"
    if "vy (targetPos (newLight lower)) < vy (targetPos (newLight higher))"
  proof (rule heightBoost_antimono)
    from that show "normalizedHeight (newLight lower) < normalizedHeight (newLight higher)"
      by (simp add: newLight_height tree_height_def)
  qed
  have chaos: "state fr \<noteq> FORMED" if "state fr = CHAOS"
    using that by simp
  from lit cone chaos intensity_periodic [of d t] intensity_bounds [of t d]
    heightBoost_antimono [of d e] newLight_height [of rnd]
  show ?thesis
    by (simp add: intensity_def heightBoost_def)
qed

theorem C7_light_intensity_witness:
  "FairyLights_useFrame \<lparr>state = CHAOS, elapsedTime = 0, delta = 1 / 4\<rparr>
      \<lparr>groupRef = Some [\<lparr>position = \<lparr>vx = 1, vy = 0, vz = 0\<rparr>, rotation = \<lparr>ex = 0, ey = 0, ez = 0\<rparr>, material = Some \<lparr>emissiveIntensity = 7\<rparr>\<rparr>], data = [\<lparr>chaosPos = \<lparr>vx = 0, vy = 0, vz = 0\<rparr>, targetPos = \<lparr>vx = 3, vy = 0, vz = 4\<rparr>, currentPos = \<lparr>vx = 1, vy = 0, vz = 0\<rparr>, light_color = ''#FF0000'', speed = 2, timeOffset = 0, normalizedHeight = 0.5\<rparr>]\<rparr> =
     Inr \<lparr>groupRef = Some [\<lparr>position = \<lparr>vx = 1 / 2, vy = 0, vz = 0\<rparr>, rotation = \<lparr>ex = 0, ey = 0, ez = 0\<rparr>, material = Some \<lparr>emissiveIntensity = 0\<rparr>\<rparr>], data = [\<lparr>chaosPos = \<lparr>vx = 0, vy = 0, vz = 0\<rparr>, targetPos = \<lparr>vx = 3, vy = 0, vz = 4\<rparr>, currentPos = \<lparr>vx = 1 / 2, vy = 0, vz = 0\<rparr>, light_color = ''#FF0000'', speed = 2, timeOffset = 0, normalizedHeight = 0.5\<rparr>]\<rparr>
   \<and> FairyLights_useFrame \<lparr>state = FORMED, elapsedTime = 0, delta = 1 / 4\<rparr>
      \<lparr>groupRef = Some [\<lparr>position = \<lparr>vx = 1, vy = 0, vz = 0\<rparr>, rotation = \<lparr>ex = 0, ey = 0, ez = 0\<rparr>, material = Some \<lparr>emissiveIntensity = 0\<rparr>\<rparr>], data = [\<lparr>chaosPos = \<lparr>vx = 0, vy = 0, vz = 0\<rparr>, targetPos = \<lparr>vx = 3, vy = 0, vz = 4\<rparr>, currentPos = \<lparr>vx = 1, vy = 0, vz = 0\<rparr>, light_color = ''#FF0000'', speed = 2, timeOffset = 0, normalizedHeight = 0.5\<rparr>]\<rparr> =
     Inr \<lparr>groupRef = Some [\<lparr>position = \<lparr>vx = 2, vy = 0, vz = 2\<rparr>, rotation = \<lparr>ex = 0, ey = 0, ez = 0\<rparr>, material = Some \<lparr>emissiveIntensity = 5\<rparr>\<rparr>], data = [\<lparr>chaosPos = \<lparr>vx = 0, vy = 0, vz = 0\<rparr>, targetPos = \<lparr>vx = 3, vy = 0, vz = 4\<rparr>, currentPos = \<lparr>vx = 2, vy = 0, vz = 2\<rparr>, light_color = ''#FF0000'', speed = 2, timeOffset = 0, normalizedHeight = 0.5\<rparr>]\<rparr>
   \<and> intensity (0 + 2 * pi / speed \<lparr>chaosPos = \<lparr>vx = 0, vy = 0, vz = 0\<rparr>, targetPos = \<lparr>vx = 3, vy = 0, vz = 4\<rparr>, currentPos = \<lparr>vx = 1, vy = 0, vz = 0\<rparr>, light_color = ''#FF0000'', speed = 2, timeOffset = 0, normalizedHeight = 0.5\<rparr>)
        \<lparr>chaosPos = \<lparr>vx = 0, vy = 0, vz = 0\<rparr>, targetPos = \<lparr>vx = 3, vy = 0, vz = 4\<rparr>, currentPos = \<lparr>vx = 1, vy = 0, vz = 0\<rparr>, light_color = ''#FF0000'', speed = 2, timeOffset = 0, normalizedHeight = 0.5\<rparr> =
      intensity 0 \<lparr>chaosPos = \<lparr>vx = 0, vy = 0, vz = 0\<rparr>, targetPos = \<lparr>vx = 3, vy = 0, vz = 4\<rparr>, currentPos = \<lparr>vx = 1, vy = 0, vz = 0\<rparr>, light_color = ''#FF0000'', speed = 2, timeOffset = 0, normalizedHeight = 0.5\<rparr>
   \<and> heightBoost \<lparr>chaosPos = \<lparr>vx = 0, vy = 0, vz = 0\<rparr>, targetPos = \<lparr>vx = 3, vy = 0, vz = 4\<rparr>, currentPos = \<lparr>vx = 1, vy = 0, vz = 0\<rparr>, light_color = ''#FF0000'', speed = 2, timeOffset = 0, normalizedHeight = 0.5\<rparr>
      < heightBoost \<lparr>chaosPos = \<lparr>vx = 0, vy = 0, vz = 0\<rparr>, targetPos = \<lparr>vx = 3, vy = 0, vz = 4\<rparr>, currentPos = \<lparr>vx = 1, vy = 0, vz = 0\<rparr>, light_color = ''#FF0000'', speed = 2, timeOffset = 0, normalizedHeight = 0.25\<rparr>
   \<and> heightBoost (newLight (\<lambda>k. 1 / 2)) < heightBoost (newLight (\<lambda>k. 0))"
  using
    C7_light_intensity [where fr = "\<lparr>state = CHAOS, elapsedTime = 0, delta = 1 / 4\<rparr>"
      and bulbs = "\<lparr>groupRef = Some [\<lparr>position = \<lparr>vx = 1, vy = 0, vz = 0\<rparr>, rotation = \<lparr>ex = 0, ey = 0, ez = 0\<rparr>, material = Some \<lparr>emissiveIntensity = 7\<rparr>\<rparr>], data = [\<lparr>chaosPos = \<lparr>vx = 0, vy = 0, vz = 0\<rparr>, targetPos = \<lparr>vx = 3, vy = 0, vz = 4\<rparr>, currentPos = \<lparr>vx = 1, vy = 0, vz = 0\<rparr>, light_color = ''#FF0000'', speed = 2, timeOffset = 0, normalizedHeight = 0.5\<rparr>]\<rparr>"
      and bulbs_next = "\<lparr>groupRef = Some [\<lparr>position = \<lparr>vx = 1 / 2, vy = 0, vz = 0\<rparr>, rotation = \<lparr>ex = 0, ey = 0, ez = 0\<rparr>, material = Some \<lparr>emissiveIntensity = 0\<rparr>\<rparr>], data = [\<lparr>chaosPos = \<lparr>vx = 0, vy = 0, vz = 0\<rparr>, targetPos = \<lparr>vx = 3, vy = 0, vz = 4\<rparr>, currentPos = \<lparr>vx = 1 / 2, vy = 0, vz = 0\<rparr>, light_color = ''#FF0000'', speed = 2, timeOffset = 0, normalizedHeight = 0.5\<rparr>]\<rparr>"
      and spheres = "[\<lparr>position = \<lparr>vx = 1, vy = 0, vz = 0\<rparr>, rotation = \<lparr>ex = 0, ey = 0, ez = 0\<rparr>, material = Some \<lparr>emissiveIntensity = 7\<rparr>\<rparr>]"
      and spheres_next = "[\<lparr>position = \<lparr>vx = 1 / 2, vy = 0, vz = 0\<rparr>, rotation = \<lparr>ex = 0, ey = 0, ez = 0\<rparr>, material = Some \<lparr>emissiveIntensity = 0\<rparr>\<rparr>]"
      and k = 0 and m = "\<lparr>emissiveIntensity = 7\<rparr>"
      and t = 0 and d = "\<lparr>chaosPos = \<lparr>vx = 0, vy = 0, vz = 0\<rparr>, targetPos = \<lparr>vx = 3, vy = 0, vz = 4\<rparr>, currentPos = \<lparr>vx = 1, vy = 0, vz = 0\<rparr>, light_color = ''#FF0000'', speed = 2, timeOffset = 0, normalizedHeight = 0.25\<rparr>"
      and e = "\<lparr>chaosPos = \<lparr>vx = 0, vy = 0, vz = 0\<rparr>, targetPos = \<lparr>vx = 3, vy = 0, vz = 4\<rparr>, currentPos = \<lparr>vx = 1, vy = 0, vz = 0\<rparr>, light_color = ''#FF0000'', speed = 2, timeOffset = 0, normalizedHeight = 0.5\<rparr>"
      and lower = "\<lambda>k. 0" and higher = "\<lambda>k. 1 / 2"]
    C7_light_intensity [where fr = "\<lparr>state = FORMED, elapsedTime = 0, delta = 1 / 4\<rparr>"
      and bulbs = "\<lparr>groupRef = Some [\<lparr>position = \<lparr>vx = 1, vy = 0, vz = 0\<rparr>, rotation = \<lparr>ex = 0, ey = 0, ez = 0\<rparr>, material = Some \<lparr>emissiveIntensity = 0\<rparr>\<rparr>], data = [\<lparr>chaosPos = \<lparr>vx = 0, vy = 0, vz = 0\<rparr>, targetPos = \<lparr>vx = 3, vy = 0, vz = 4\<rparr>, currentPos = \<lparr>vx = 1, vy = 0, vz = 0\<rparr>, light_color = ''#FF0000'', speed = 2, timeOffset = 0, normalizedHeight = 0.5\<rparr>]\<rparr>"
      and bulbs_next = "\<lparr>groupRef = Some [\<lparr>position = \<lparr>vx = 2, vy = 0, vz = 2\<rparr>, rotation = \<lparr>ex = 0, ey = 0, ez = 0\<rparr>, material = Some \<lparr>emissiveIntensity = 5\<rparr>\<rparr>], data = [\<lparr>chaosPos = \<lparr>vx = 0, vy = 0, vz = 0\<rparr>, targetPos = \<lparr>vx = 3, vy = 0, vz = 4\<rparr>, currentPos = \<lparr>vx = 2, vy = 0, vz = 2\<rparr>, light_color = ''#FF0000'', speed = 2, timeOffset = 0, normalizedHeight = 0.5\<rparr>]\<rparr>"
      and spheres = "[\<lparr>position = \<lparr>vx = 1, vy = 0, vz = 0\<rparr>, rotation = \<lparr>ex = 0, ey = 0, ez = 0\<rparr>, material = Some \<lparr>emissiveIntensity = 0\<rparr>\<rparr>]"
      and spheres_next = "[\<lparr>position = \<lparr>vx = 2, vy = 0, vz = 2\<rparr>, rotation = \<lparr>ex = 0, ey = 0, ez = 0\<rparr>, material = Some \<lparr>emissiveIntensity = 5\<rparr>\<rparr>]"
      and k = 0 and m = "\<lparr>emissiveIntensity = 0\<rparr>"
      and t = 0 and d = "\<lparr>chaosPos = \<lparr>vx = 0, vy = 0, vz = 0\<rparr>, targetPos = \<lparr>vx = 3, vy = 0, vz = 4\<rparr>, currentPos = \<lparr>vx = 1, vy = 0, vz = 0\<rparr>, light_color = ''#FF0000'', speed = 2, timeOffset = 0, normalizedHeight = 0.5\<rparr>"]
  by (simp add: Let_def FairyLights_useFrame_def useFrame_def lightCallback_def lerp_def
      target_def intensity_def heightBoost_def newLight_def tree_height_def)

section \<open>Properties that hold over any run of frames\<close>

lemma useFrame_targets:
  assumes run: "useFrame f p = Inr p'"
    and f: "\<And>c d. \<exists>v. snd (f c d) = d\<lparr>currentPos := v\<rparr>"
  shows "chaosPos (data p' ! i) = chaosPos (data p ! i)
         \<and> targetPos (data p' ! i) = targetPos (data p ! i)
         \<and> pooled.more (data p' ! i) = pooled.more (data p ! i)"
  using run
proof (rule useFrame_related)
  fix c d
  from f [of c d] obtain v where "snd (f c d) = d\<lparr>currentPos := v\<rparr>" ..
  then show "chaosPos (snd (f c d)) = chaosPos d \<and> targetPos (snd (f c d)) = targetPos d
               \<and> pooled.more (snd (f c d)) = pooled.more d"
    by simp
qed simp

lemma frames_targets:
  assumes run: "frames step frs p = Inr p'"
    and step: "\<And>fr q q' i. step fr q = Inr q' \<Longrightarrow>
                 chaosPos (data q' ! i) = chaosPos (data q ! i)
                 \<and> targetPos (data q' ! i) = targetPos (data q ! i)
                 \<and> pooled.more (data q' ! i) = pooled.more (data q ! i)"
  shows "chaosPos (data p' ! i) = chaosPos (data p ! i)
         \<and> targetPos (data p' ! i) = targetPos (data p ! i)
         \<and> data p' ! i = (data p ! i)\<lparr>currentPos := currentPos (data p' ! i)\<rparr>"
proof -
  have "chaosPos (data p' ! i) = chaosPos (data p ! i)
         \<and> targetPos (data p' ! i) = targetPos (data p ! i)
         \<and> pooled.more (data p' ! i) = pooled.more (data p ! i)"
    using run
  proof (rule frames_related)
    show "chaosPos (data q' ! i) = chaosPos (data q ! i)
            \<and> targetPos (data q' ! i) = targetPos (data q ! i)
            \<and> pooled.more (data q' ! i) = pooled.more (data q ! i)"
      if "step fr q = Inr q'" for fr q q' i
      using that by (rule step)
  qed simp_all
  then show ?thesis
    by (simp add: pooled.equality)
qed

lemma PhotoOrnaments_useFrame_targets:
  assumes "PhotoOrnaments_useFrame lookAt fr q = Inr q'"
  shows "chaosPos (data q' ! i) = chaosPos (data q ! i)
         \<and> targetPos (data q' ! i) = targetPos (data q ! i)
         \<and> pooled.more (data q' ! i) = pooled.more (data q ! i)"
  using assms unfolding PhotoOrnaments_useFrame_def
  by (rule useFrame_targets) (subst photoCallback_data, rule exI, rule refl)

lemma ChristmasElements_useFrame_targets:
  assumes "ChristmasElements_useFrame fr q = Inr q'"
  shows "chaosPos (data q' ! i) = chaosPos (data q ! i)
         \<and> targetPos (data q' ! i) = targetPos (data q ! i)
         \<and> pooled.more (data q' ! i) = pooled.more (data q ! i)"
  using assms unfolding ChristmasElements_useFrame_def
  by (rule useFrame_targets) (subst elementCallback_data, rule exI, rule refl)

lemma FairyLights_useFrame_targets:
  assumes "FairyLights_useFrame fr q = Inr q'"
  shows "chaosPos (data q' ! i) = chaosPos (data q ! i)
         \<and> targetPos (data q' ! i) = targetPos (data q ! i)
         \<and> pooled.more (data q' ! i) = pooled.more (data q ! i)"
  using assms unfolding FairyLights_useFrame_def
  by (rule useFrame_targets) (subst lightCallback_data, rule exI, rule refl)

lemma same_command_again: "sceneState a = m \<Longrightarrow> dispatch [OnGesture m] a = a"
  by (simp add: dispatch_def alignSpin_def)

text \<open>
  Claim C8. Over any run of frames, whatever the scene state of each, every object of
  the three pools keeps its \<open>chaosPos\<close> and \<open>targetPos\<close> and all its other fields:
  only \<open>currentPos\<close> differs (rotations are kept in the scene graph, not in the data),
  and the pools keep their sizes. A new photo or light starts at its \<open>chaosPos\<close>. A
  mode command equal to the current scene state changes nothing in the application
  state, so that a repeated command has the effect of one.
\<close>

theorem C8_targets_fixed:
  "(frames (PhotoOrnaments_useFrame lookAt) frs photos = Inr photos_next
      \<and> i < length (data photos) \<longrightarrow>
      length (data photos_next) = length (data photos)
      \<and> chaosPos (data photos_next ! i) = chaosPos (data photos ! i)
      \<and> targetPos (data photos_next ! i) = targetPos (data photos ! i)
      \<and> data photos_next ! i = (data photos ! i)\<lparr>currentPos := currentPos (data photos_next ! i)\<rparr>)
   \<and> (frames ChristmasElements_useFrame frs elements = Inr elements_next
      \<and> j < length (data elements) \<longrightarrow>
      length (data elements_next) = length (data elements)
      \<and> chaosPos (data elements_next ! j) = chaosPos (data elements ! j)
      \<and> targetPos (data elements_next ! j) = targetPos (data elements ! j)
      \<and> data elements_next ! j =
          (data elements ! j)\<lparr>currentPos := currentPos (data elements_next ! j)\<rparr>)
   \<and> (frames FairyLights_useFrame frs bulbs = Inr bulbs_next
      \<and> k < length (data bulbs) \<longrightarrow>
      length (data bulbs_next) = length (data bulbs)
      \<and> chaosPos (data bulbs_next ! k) = chaosPos (data bulbs ! k)
      \<and> targetPos (data bulbs_next ! k) = targetPos (data bulbs ! k)
      \<and> data bulbs_next ! k = (data bulbs ! k)\<lparr>currentPos := currentPos (data bulbs_next ! k)\<rparr>)
   \<and> currentPos (newPhoto n_textures rnd n) = chaosPos (newPhoto n_textures rnd n)
   \<and> currentPos (newLight rnd) = chaosPos (newLight rnd)
   \<and> (sceneState a = m \<longrightarrow> dispatch [OnGesture m] a = a)
   \<and> dispatch [OnGesture m] (dispatch [OnGesture m] a) = dispatch [OnGesture m] a"
proof -
  have photo: "length (data photos_next) = length (data photos)
      \<and> chaosPos (data photos_next ! i) = chaosPos (data photos ! i)
      \<and> targetPos (data photos_next ! i) = targetPos (data photos ! i)
      \<and> data photos_next ! i = (data photos ! i)\<lparr>currentPos := currentPos (data photos_next ! i)\<rparr>"
    if run: "frames (PhotoOrnaments_useFrame lookAt) frs photos = Inr photos_next"
  proof (intro conjI)
    show "length (data photos_next) = length (data photos)"
      using run by (rule frames_length) (simp add: PhotoOrnaments_useFrame_def useFrame_length)
    have "chaosPos (data photos_next ! i) = chaosPos (data photos ! i)
      \<and> targetPos (data photos_next ! i) = targetPos (data photos ! i)
      \<and> data photos_next ! i = (data photos ! i)\<lparr>currentPos := currentPos (data photos_next ! i)\<rparr>"
      using run
      by (rule frames_targets) (rule PhotoOrnaments_useFrame_targets)
    then show "chaosPos (data photos_next ! i) = chaosPos (data photos ! i)"
      and "targetPos (data photos_next ! i) = targetPos (data photos ! i)"
      and "data photos_next ! i = (data photos ! i)\<lparr>currentPos := currentPos (data photos_next ! i)\<rparr>"
      by blast+
  qed
  have element: "length (data elements_next) = length (data elements)
      \<and> chaosPos (data elements_next ! j) = chaosPos (data elements ! j)
      \<and> targetPos (data elements_next ! j) = targetPos (data elements ! j)
      \<and> data elements_next ! j =
          (data elements ! j)\<lparr>currentPos := currentPos (data elements_next ! j)\<rparr>"
    if run: "frames ChristmasElements_useFrame frs elements = Inr elements_next"
  proof (intro conjI)
    show "length (data elements_next) = length (data elements)"
      using run by (rule frames_length) (simp add: ChristmasElements_useFrame_def useFrame_length)
    have "chaosPos (data elements_next ! j) = chaosPos (data elements ! j)
      \<and> targetPos (data elements_next ! j) = targetPos (data elements ! j)
      \<and> data elements_next ! j =
          (data elements ! j)\<lparr>currentPos := currentPos (data elements_next ! j)\<rparr>"
      using run
      by (rule frames_targets) (rule ChristmasElements_useFrame_targets)
    then show "chaosPos (data elements_next ! j) = chaosPos (data elements ! j)"
      and "targetPos (data elements_next ! j) = targetPos (data elements ! j)"
      and "data elements_next ! j =
          (data elements ! j)\<lparr>currentPos := currentPos (data elements_next ! j)\<rparr>"
      by blast+
  qed
  have light: "length (data bulbs_next) = length (data bulbs)
      \<and> chaosPos (data bulbs_next ! k) = chaosPos (data bulbs ! k)
      \<and> targetPos (data bulbs_next ! k) = targetPos (data bulbs ! k)
      \<and> data bulbs_next ! k = (data bulbs ! k)\<lparr>currentPos := currentPos (data bulbs_next ! k)\<rparr>"
    if run: "frames FairyLights_useFrame frs bulbs = Inr bulbs_next"
  proof (intro conjI)
    show "length (data bulbs_next) = length (data bulbs)"
      using run by (rule frames_length) (simp add: FairyLights_useFrame_def useFrame_length)
    have "chaosPos (data bulbs_next ! k) = chaosPos (data bulbs ! k)
      \<and> targetPos (data bulbs_next ! k) = targetPos (data bulbs ! k)
      \<and> data bulbs_next ! k = (data bulbs ! k)\<lparr>currentPos := currentPos (data bulbs_next ! k)\<rparr>"
      using run
      by (rule frames_targets) (rule FairyLights_useFrame_targets)
    then show "chaosPos (data bulbs_next ! k) = chaosPos (data bulbs ! k)"
      and "targetPos (data bulbs_next ! k) = targetPos (data bulbs ! k)"
      and "data bulbs_next ! k = (data bulbs ! k)\<lparr>currentPos := currentPos (data bulbs_next ! k)\<rparr>"
      by blast+
  qed
  have built: "currentPos (newPhoto n_textures rnd n) = chaosPos (newPhoto n_textures rnd n)"
    "currentPos (newLight rnd) = chaosPos (newLight rnd)"
    by (simp_all add: newPhoto_def newLight_def Let_def)
  have again: "dispatch [OnGesture m] (dispatch [OnGesture m] a) = dispatch [OnGesture m] a"
    by (rule same_command_again) (simp add: sceneState_dispatch)
  from photo element light built again same_command_again [of a m] show ?thesis
    by blast
qed

theorem C8_targets_fixed_witness:
  "frames (PhotoOrnaments_useFrame (\<lambda>p t. \<lparr>ex = 0, ey = 0, ez = 0\<rparr>))
      [\<lparr>state = FORMED, elapsedTime = 0, delta = 1 / 4\<rparr>, \<lparr>state = CHAOS, elapsedTime = 0, delta = 1 / 4\<rparr>]
      \<lparr>groupRef = Some [\<lparr>position = \<lparr>vx = 1, vy = 0, vz = 0\<rparr>, rotation = \<lparr>ex = 0, ey = 0, ez = 0\<rparr>\<rparr>], data = [\<lparr>chaosPos = \<lparr>vx = 4, vy = 0, vz = 0\<rparr>, targetPos = \<lparr>vx = 0, vy = 0, vz = 0\<rparr>, currentPos = \<lparr>vx = 1, vy = 0, vz = 0\<rparr>, photo_scale = 1, weight = 1, textureIndex = 0, borderColor = ''#FFFAF0'', photo_chaosRotation = \<lparr>ex = 0, ey = 0, ez = 0\<rparr>, photo_rotationSpeed = \<lparr>vx = 0, vy = 0, vz = 0\<rparr>, wobbleOffset = 0, wobbleSpeed = 1\<rparr>]\<rparr> =
     Inr \<lparr>groupRef = Some [\<lparr>position = \<lparr>vx = 6 / 5, vy = 0, vz = 0\<rparr>, rotation = \<lparr>ex = 0, ey = 0, ez = 1 / 20\<rparr>\<rparr>], data = [\<lparr>chaosPos = \<lparr>vx = 4, vy = 0, vz = 0\<rparr>, targetPos = \<lparr>vx = 0, vy = 0, vz = 0\<rparr>, currentPos = \<lparr>vx = 6 / 5, vy = 0, vz = 0\<rparr>, photo_scale = 1, weight = 1, textureIndex = 0, borderColor = ''#FFFAF0'', photo_chaosRotation = \<lparr>ex = 0, ey = 0, ez = 0\<rparr>, photo_rotationSpeed = \<lparr>vx = 0, vy = 0, vz = 0\<rparr>, wobbleOffset = 0, wobbleSpeed = 1\<rparr>]\<rparr>
   \<and> frames ChristmasElements_useFrame
      [\<lparr>state = FORMED, elapsedTime = 0, delta = 1 / 4\<rparr>, \<lparr>state = CHAOS, elapsedTime = 0, delta = 1 / 4\<rparr>]
      \<lparr>groupRef = Some [\<lparr>position = \<lparr>vx = 1, vy = 0, vz = 0\<rparr>, rotation = \<lparr>ex = 0, ey = 0, ez = 0\<rparr>\<rparr>], data = [\<lparr>chaosPos = \<lparr>vx = 0, vy = 0, vz = 0\<rparr>, targetPos = \<lparr>vx = 3, vy = 0, vz = 4\<rparr>, currentPos = \<lparr>vx = 1, vy = 0, vz = 0\<rparr>, element_type = 0, element_color = ''#D32F2F'', element_scale = 1, element_chaosRotation = \<lparr>ex = 0, ey = 0, ez = 0\<rparr>, element_rotationSpeed = \<lparr>vx = 0, vy = 0, vz = 0\<rparr>\<rparr>]\<rparr> =
     Inr \<lparr>groupRef = Some [\<lparr>position = \<lparr>vx = 35 / 32, vy = 0, vz = 15 / 16\<rparr>, rotation = \<lparr>ex = 0, ey = 0, ez = 0\<rparr>\<rparr>], data = [\<lparr>chaosPos = \<lparr>vx = 0, vy = 0, vz = 0\<rparr>, targetPos = \<lparr>vx = 3, vy = 0, vz = 4\<rparr>, currentPos = \<lparr>vx = 35 / 32, vy = 0, vz = 15 / 16\<rparr>, element_type = 0, element_color = ''#D32F2F'', element_scale = 1, element_chaosRotation = \<lparr>ex = 0, ey = 0, ez = 0\<rparr>, element_rotationSpeed = \<lparr>vx = 0, vy = 0, vz = 0\<rparr>\<rparr>]\<rparr>
   \<and> frames FairyLights_useFrame
      [\<lparr>state = FORMED, elapsedTime = 0, delta = 1 / 4\<rparr>, \<lparr>state = CHAOS, elapsedTime = 0, delta = 1 / 4\<rparr>]
      \<lparr>groupRef = Some [\<lparr>position = \<lparr>vx = 1, vy = 0, vz = 0\<rparr>, rotation = \<lparr>ex = 0, ey = 0, ez = 0\<rparr>, material = Some \<lparr>emissiveIntensity = 0\<rparr>\<rparr>], data = [\<lparr>chaosPos = \<lparr>vx = 0, vy = 0, vz = 0\<rparr>, targetPos = \<lparr>vx = 3, vy = 0, vz = 4\<rparr>, currentPos = \<lparr>vx = 1, vy = 0, vz = 0\<rparr>, light_color = ''#FF0000'', speed = 2, timeOffset = 0, normalizedHeight = 0.5\<rparr>]\<rparr> =
     Inr \<lparr>groupRef = Some [\<lparr>position = \<lparr>vx = 1, vy = 0, vz = 1\<rparr>, rotation = \<lparr>ex = 0, ey = 0, ez = 0\<rparr>, material = Some \<lparr>emissiveIntensity = 0\<rparr>\<rparr>], data = [\<lparr>chaosPos = \<lparr>vx = 0, vy = 0, vz = 0\<rparr>, targetPos = \<lparr>vx = 3, vy = 0, vz = 4\<rparr>, currentPos = \<lparr>vx = 1, vy = 0, vz = 1\<rparr>, light_color = ''#FF0000'', speed = 2, timeOffset = 0, normalizedHeight = 0.5\<rparr>]\<rparr>
   \<and> dispatch [OnGesture CHAOS] initialApp = initialApp"
  using
    C8_targets_fixed [where lookAt = "\<lambda>p t. \<lparr>ex = 0, ey = 0, ez = 0\<rparr>"
      and frs = "[\<lparr>state = FORMED, elapsedTime = 0, delta = 1 / 4\<rparr>, \<lparr>state = CHAOS, elapsedTime = 0, delta = 1 / 4\<rparr>]"
      and photos = "\<lparr>groupRef = Some [\<lparr>position = \<lparr>vx = 1, vy = 0, vz = 0\<rparr>, rotation = \<lparr>ex = 0, ey = 0, ez = 0\<rparr>\<rparr>], data = [\<lparr>chaosPos = \<lparr>vx = 4, vy = 0, vz = 0\<rparr>, targetPos = \<lparr>vx = 0, vy = 0, vz = 0\<rparr>, currentPos = \<lparr>vx = 1, vy = 0, vz = 0\<rparr>, photo_scale = 1, weight = 1, textureIndex = 0, borderColor = ''#FFFAF0'', photo_chaosRotation = \<lparr>ex = 0, ey = 0, ez = 0\<rparr>, photo_rotationSpeed = \<lparr>vx = 0, vy = 0, vz = 0\<rparr>, wobbleOffset = 0, wobbleSpeed = 1\<rparr>]\<rparr>"
      and photos_next = "\<lparr>groupRef = Some [\<lparr>position = \<lparr>vx = 6 / 5, vy = 0, vz = 0\<rparr>, rotation = \<lparr>ex = 0, ey = 0, ez = 1 / 20\<rparr>\<rparr>], data = [\<lparr>chaosPos = \<lparr>vx = 4, vy = 0, vz = 0\<rparr>, targetPos = \<lparr>vx = 0, vy = 0, vz = 0\<rparr>, currentPos = \<lparr>vx = 6 / 5, vy = 0, vz = 0\<rparr>, photo_scale = 1, weight = 1, textureIndex = 0, borderColor = ''#FFFAF0'', photo_chaosRotation = \<lparr>ex = 0, ey = 0, ez = 0\<rparr>, photo_rotationSpeed = \<lparr>vx = 0, vy = 0, vz = 0\<rparr>, wobbleOffset = 0, wobbleSpeed = 1\<rparr>]\<rparr>"
      and i = 0
      and elements = "\<lparr>groupRef = Some [\<lparr>position = \<lparr>vx = 1, vy = 0, vz = 0\<rparr>, rotation = \<lparr>ex = 0, ey = 0, ez = 0\<rparr>\<rparr>], data = [\<lparr>chaosPos = \<lparr>vx = 0, vy = 0, vz = 0\<rparr>, targetPos = \<lparr>vx = 3, vy = 0, vz = 4\<rparr>, currentPos = \<lparr>vx = 1, vy = 0, vz = 0\<rparr>, element_type = 0, element_color = ''#D32F2F'', element_scale = 1, element_chaosRotation = \<lparr>ex = 0, ey = 0, ez = 0\<rparr>, element_rotationSpeed = \<lparr>vx = 0, vy = 0, vz = 0\<rparr>\<rparr>]\<rparr>"
      and elements_next = "\<lparr>groupRef = Some [\<lparr>position = \<lparr>vx = 35 / 32, vy = 0, vz = 15 / 16\<rparr>, rotation = \<lparr>ex = 0, ey = 0, ez = 0\<rparr>\<rparr>], data = [\<lparr>chaosPos = \<lparr>vx = 0, vy = 0, vz = 0\<rparr>, targetPos = \<lparr>vx = 3, vy = 0, vz = 4\<rparr>, currentPos = \<lparr>vx = 35 / 32, vy = 0, vz = 15 / 16\<rparr>, element_type = 0, element_color = ''#D32F2F'', element_scale = 1, element_chaosRotation = \<lparr>ex = 0, ey = 0, ez = 0\<rparr>, element_rotationSpeed = \<lparr>vx = 0, vy = 0, vz = 0\<rparr>\<rparr>]\<rparr>"
      and j = 0
      and bulbs = "\<lparr>groupRef = Some [\<lparr>position = \<lparr>vx = 1, vy = 0, vz = 0\<rparr>, rotation = \<lparr>ex = 0, ey = 0, ez = 0\<rparr>, material = Some \<lparr>emissiveIntensity = 0\<rparr>\<rparr>], data = [\<lparr>chaosPos = \<lparr>vx = 0, vy = 0, vz = 0\<rparr>, targetPos = \<lparr>vx = 3, vy = 0, vz = 4\<rparr>, currentPos = \<lparr>vx = 1, vy = 0, vz = 0\<rparr>, light_color = ''#FF0000'', speed = 2, timeOffset = 0, normalizedHeight = 0.5\<rparr>]\<rparr>"
      and bulbs_next = "\<lparr>groupRef = Some [\<lparr>position = \<lparr>vx = 1, vy = 0, vz = 1\<rparr>, rotation = \<lparr>ex = 0, ey = 0, ez = 0\<rparr>, material = Some \<lparr>emissiveIntensity = 0\<rparr>\<rparr>], data = [\<lparr>chaosPos = \<lparr>vx = 0, vy = 0, vz = 0\<rparr>, targetPos = \<lparr>vx = 3, vy = 0, vz = 4\<rparr>, currentPos = \<lparr>vx = 1, vy = 0, vz = 1\<rparr>, light_color = ''#FF0000'', speed = 2, timeOffset = 0, normalizedHeight = 0.5\<rparr>]\<rparr>"
      and k = 0 and a = initialApp and m = CHAOS]
  by (simp add: Let_def PhotoOrnaments_useFrame_def ChristmasElements_useFrame_def FairyLights_useFrame_def
      useFrame_def photoCallback_def elementCallback_def lightCallback_def photoRate_def lerp_def
      target_def intensity_def heightBoost_def initialApp_def)

section \<open>Properties of the tree shape\<close>

lemma normalizedY_at: "normalizedY (t * tree_height - tree_height / 2) = t"
  by (simp add: normalizedY_def tree_height_def)

lemma currentRadius_at: "currentRadius (t * tree_height - tree_height / 2) = tree_radius * (1 - t)"
  by (simp only: currentRadius_def normalizedY_at)

lemma getTreePosition_components:
  "vy (getTreePosition random1 random2 random3) = random1 * tree_height - tree_height / 2"
  "vx (getTreePosition random1 random2 random3) =
     random3 * currentRadius (vy (getTreePosition random1 random2 random3)) * cos (random2 * pi * 2)"
  "vz (getTreePosition random1 random2 random3) =
     random3 * currentRadius (vy (getTreePosition random1 random2 random3)) * sin (random2 * pi * 2)"
  by (simp_all add: getTreePosition_def Let_def)

lemma polar_radius:
  fixes r :: real
  assumes "0 \<le> r"
  shows "sqrt ((r * cos a)\<^sup>2 + (r * sin a)\<^sup>2) = r"
proof -
  have "(r * cos a)\<^sup>2 + (r * sin a)\<^sup>2 = r\<^sup>2 * ((sin a)\<^sup>2 + (cos a)\<^sup>2)"
    by (simp only: power_mult_distrib distrib_left add.commute)
  then have "(r * cos a)\<^sup>2 + (r * sin a)\<^sup>2 = r\<^sup>2"
    by (simp only: sin_cos_squared_add mult_1_right)
  with assms show ?thesis
    by simp
qed

text \<open>
  Claim C6. In \<open>getTreePosition\<close> the normalized height of the height drawn for
  \<open>t\<close> is \<open>t\<close>, and the local radius there is \<open>tree_radius * (1 - t)\<close>: it does not
  increase with \<open>t\<close> and is 0 at \<open>t = 1\<close>. The point returned lies at the height drawn,
  at the angle drawn and at the radius \<open>r\<close>, the radius draw times the local radius; for
  draws in \<open>[0, 1)\<close>, as \<open>Math.random()\<close> gives them, \<open>r\<close> lies between 0 and the local
  radius and is the distance of the point to the axis.
\<close>

theorem C6_formed_radius:
  "normalizedY (t * tree_height - tree_height / 2) = t
   \<and> currentRadius (t * tree_height - tree_height / 2) = tree_radius * (1 - t)
   \<and> (s \<le> t \<longrightarrow>
        currentRadius (t * tree_height - tree_height / 2)
          \<le> currentRadius (s * tree_height - tree_height / 2))
   \<and> currentRadius (1 * tree_height - tree_height / 2) = 0
   \<and> vy (getTreePosition heightDraw angleDraw radiusDraw) = heightDraw * tree_height - tree_height / 2
   \<and> vx (getTreePosition heightDraw angleDraw radiusDraw) =
        radiusDraw * currentRadius (vy (getTreePosition heightDraw angleDraw radiusDraw)) * cos (angleDraw * pi * 2)
   \<and> vz (getTreePosition heightDraw angleDraw radiusDraw) =
        radiusDraw * currentRadius (vy (getTreePosition heightDraw angleDraw radiusDraw)) * sin (angleDraw * pi * 2)
   \<and> (0 \<le> heightDraw \<and> heightDraw < 1 \<and> 0 \<le> radiusDraw \<and> radiusDraw < 1 \<longrightarrow>
        0 \<le> radiusDraw * currentRadius (vy (getTreePosition heightDraw angleDraw radiusDraw))
        \<and> radiusDraw * currentRadius (vy (getTreePosition heightDraw angleDraw radiusDraw))
            \<le> currentRadius (vy (getTreePosition heightDraw angleDraw radiusDraw))
        \<and> sqrt ((vx (getTreePosition heightDraw angleDraw radiusDraw))\<^sup>2
                 + (vz (getTreePosition heightDraw angleDraw radiusDraw))\<^sup>2) =
            radiusDraw * currentRadius (vy (getTreePosition heightDraw angleDraw radiusDraw)))"
proof -
  have mono: "currentRadius (t * tree_height - tree_height / 2)
          \<le> currentRadius (s * tree_height - tree_height / 2)" if "s \<le> t"
    using that by (simp add: currentRadius_at tree_radius_def)
  have apex: "currentRadius (1 * tree_height - tree_height / 2) = 0"
    by (simp only: currentRadius_at) simp
  have sampled: "0 \<le> radiusDraw * currentRadius (vy (getTreePosition heightDraw angleDraw radiusDraw))
        \<and> radiusDraw * currentRadius (vy (getTreePosition heightDraw angleDraw radiusDraw))
            \<le> currentRadius (vy (getTreePosition heightDraw angleDraw radiusDraw))
        \<and> sqrt ((vx (getTreePosition heightDraw angleDraw radiusDraw))\<^sup>2
                 + (vz (getTreePosition heightDraw angleDraw radiusDraw))\<^sup>2) =
            radiusDraw * currentRadius (vy (getTreePosition heightDraw angleDraw radiusDraw))"
    if "0 \<le> heightDraw" and "heightDraw < 1" and "0 \<le> radiusDraw" and "radiusDraw < 1"
  proof -
    have "currentRadius (vy (getTreePosition heightDraw angleDraw radiusDraw)) = tree_radius * (1 - heightDraw)"
      by (simp only: getTreePosition_components(1) currentRadius_at)
    with that(2) have pos: "0 \<le> currentRadius (vy (getTreePosition heightDraw angleDraw radiusDraw))"
      by (simp add: tree_radius_def)
    with that(3) have r: "0 \<le> radiusDraw * currentRadius (vy (getTreePosition heightDraw angleDraw radiusDraw))"
      by simp
    from pos that(4)
    have "radiusDraw * currentRadius (vy (getTreePosition heightDraw angleDraw radiusDraw))
            \<le> 1 * currentRadius (vy (getTreePosition heightDraw angleDraw radiusDraw))"
      by (intro mult_right_mono) simp_all
    with r polar_radius [OF r, of "angleDraw * pi * 2"] show ?thesis
      by (simp add: getTreePosition_components(2,3))
  qed
  from mono apex sampled normalizedY_at [of t] currentRadius_at [of t]
    getTreePosition_components [of heightDraw angleDraw radiusDraw]
  show ?thesis
    by blast
qed

theorem C6_formed_radius_witness:
  "currentRadius (0 * tree_height - tree_height / 2) = 14
   \<and> currentRadius ((1 / 2) * tree_height - tree_height / 2) = 7
   \<and> currentRadius (1 * tree_height - tree_height / 2) = 0
   \<and> getTreePosition (1 / 2) 0 (1 / 2) = \<lparr>vx = 7 / 2, vy = 0, vz = 0\<rparr>
   \<and> (7 / 2 :: real) \<le> currentRadius 0"
  using C6_formed_radius [where s = 0 and t = "1 / 2" and heightDraw = "1 / 2" and angleDraw = 0
      and radiusDraw = "1 / 2"]
    C6_formed_radius [where s = 0 and t = 0 and heightDraw = "1 / 2" and angleDraw = 0
      and radiusDraw = "1 / 2"]
  by (simp add: getTreePosition_def currentRadius_def normalizedY_def tree_height_def tree_radius_def)

section \<open>Properties of the login endpoint\<close>

lemma property_fields:
  "property (if truthy parsed then parsed else JObject []) k = property parsed k"
  by (cases parsed) simp_all

text \<open>
  Claim C10. A POST whose parsed body carries a user name and a password (both truthy,
  which is the test the handler makes) and whose user name is not the string
  \<open>Guandacol\<close> is answered 401 with the error \<open>Invalid credentials\<close>, whatever the
  password, the table and \<open>bcrypt\<close> are, and the \<open>users\<close> table is not read. A POST
  whose user name or password is missing (absent, or falsy: null, the empty string, 0,
  false) is answered 400.
\<close>

theorem C10_login_rejections:
  "(httpMethod req = ''POST'' \<and> body req = Inr parsed
      \<and> truthy (property parsed ''username'') \<and> truthy (property parsed ''password'')
      \<and> property parsed ''username'' \<noteq> JString ''Guandacol'' \<longrightarrow>
      handler sql compare sign req =
        \<lparr>status = 401, headers = [], payload = Error ''Invalid credentials'', queried = False\<rparr>)
   \<and> (httpMethod req = ''POST'' \<and> body req = Inr parsed
      \<and> (\<not> truthy (property parsed ''username'') \<or> \<not> truthy (property parsed ''password'')) \<longrightarrow>
      handler sql compare sign req =
        \<lparr>status = 400, headers = [],
         payload = Error ''username and password are required'', queried = False\<rparr>)"
  by (auto simp: handler_def Let_def property_fields reply_def ALLOWED_USERNAME_def)

theorem C10_login_rejections_witness:
  "handler (\<lambda>name. Inr [Some ''hash'']) (\<lambda>password stored. Inr True) (\<lambda>name. ''sig'')
      \<lparr>httpMethod = ''POST'', session = None,
       body = Inr (JObject [(''username'', JString ''mallory''), (''password'', JString ''secret'')])\<rparr> =
     \<lparr>status = 401, headers = [], payload = Error ''Invalid credentials'', queried = False\<rparr>
   \<and> handler (\<lambda>name. Inr [Some ''hash'']) (\<lambda>password stored. Inr True) (\<lambda>name. ''sig'')
      \<lparr>httpMethod = ''POST'', session = None,
       body = Inr (JObject [(''username'', JString ''Guandacol'')])\<rparr> =
     \<lparr>status = 400, headers = [],
      payload = Error ''username and password are required'', queried = False\<rparr>
   \<and> handler (\<lambda>name. Inr [Some ''hash'']) (\<lambda>password stored. Inr True) (\<lambda>name. ''sig'')
      \<lparr>httpMethod = ''POST'', session = None,
       body = Inr (JObject [(''password'', JString ''secret'')])\<rparr> =
     \<lparr>status = 400, headers = [],
      payload = Error ''username and password are required'', queried = False\<rparr>"
  using
    C10_login_rejections [where req = "\<lparr>httpMethod = ''POST'', session = None,
        body = Inr (JObject [(''username'', JString ''mallory''), (''password'', JString ''secret'')])\<rparr>"
      and parsed = "JObject [(''username'', JString ''mallory''), (''password'', JString ''secret'')]"
      and sql = "\<lambda>name. Inr [Some ''hash'']" and compare = "\<lambda>password stored. Inr True"
      and sign = "\<lambda>name. ''sig''"]
    C10_login_rejections [where req = "\<lparr>httpMethod = ''POST'', session = None,
        body = Inr (JObject [(''username'', JString ''Guandacol'')])\<rparr>"
      and parsed = "JObject [(''username'', JString ''Guandacol'')]"
      and sql = "\<lambda>name. Inr [Some ''hash'']" and compare = "\<lambda>password stored. Inr True"
      and sign = "\<lambda>name. ''sig''"]
    C10_login_rejections [where req = "\<lparr>httpMethod = ''POST'', session = None,
        body = Inr (JObject [(''password'', JString ''secret'')])\<rparr>"
      and parsed = "JObject [(''password'', JString ''secret'')]"
      and sql = "\<lambda>name. Inr [Some ''hash'']" and compare = "\<lambda>password stored. Inr True"
      and sign = "\<lambda>name. ''sig''"]
  by simp

end
